theory Spec2Isabelle
  imports Main "HOL-Library.Multiset"
begin

section \<open>Go strings and errors\<close>

text \<open>
  A Go \<open>string\<close> is a byte sequence; it is modelled as a \<open>string\<close> (a list of 8-bit
  characters). Bytes are compared through their numeric value \<open>of_char\<close>.
\<close>

definition HasPrefix :: "string \<Rightarrow> string \<Rightarrow> bool" where
  "HasPrefix s p = (take (length p) s = p)"

text \<open>\<open>strings.TrimLeft(s, cutset)\<close>: drop the leading bytes that occur in the cutset.\<close>

definition TrimLeft :: "string \<Rightarrow> string \<Rightarrow> string" where
  "TrimLeft s cutset = dropWhile (\<lambda>c. c \<in> set cutset) s"

text \<open>
  \<open>strings.Split(s, sep)\<close> for a one-byte separator: always at least one field,
  \<open>n\<close> separators give \<open>n + 1\<close> fields.
\<close>

fun Split :: "string \<Rightarrow> char \<Rightarrow> string list" where
  "Split [] sep = [[]]"
| "Split (c # cs) sep =
     (if c = sep then [] # Split cs sep
      else (case Split cs sep of
              [] \<Rightarrow> [[c]]
            | f # fs \<Rightarrow> (c # f) # fs))"

text \<open>
  Go errors. \<open>errors.New\<close> and \<open>fmt.Errorf\<close> without \<open>%w\<close> give a plain error;
  \<open>fmt.Errorf("pre%wpost", e)\<close> gives an error that wraps \<open>e\<close>: \<open>Unwrap\<close> returns
  \<open>e\<close> and the message embeds the message of \<open>e\<close>.
\<close>

datatype error = ErrNew string | ErrWrap string error string

fun Error :: "error \<Rightarrow> string" where
  "Error (ErrNew m) = m"
| "Error (ErrWrap pre e post) = pre @ Error e @ post"

fun Unwrap :: "error \<Rightarrow> error option" where
  "Unwrap (ErrNew m) = None"
| "Unwrap (ErrWrap pre e post) = Some e"

section \<open>Project names (internal/compose/compose.go)\<close>

text \<open>
  \<open>strings.ToLower\<close>: a string of ASCII bytes only is lowered byte by byte; any other
  string goes through the Unicode case tables of the standard library, which are the
  parameter \<open>unicodeLower\<close> (a library table, not code of this repository).
\<close>

definition isASCII :: "char \<Rightarrow> bool" where
  "isASCII c = ((of_char c :: nat) < 128)"

definition asciiLower :: "char \<Rightarrow> char" where
  "asciiLower c =
     (if 65 \<le> (of_char c :: nat) \<and> (of_char c :: nat) \<le> 90
      then char_of ((of_char c :: nat) + 32) else c)"

definition ToLower :: "(string \<Rightarrow> string) \<Rightarrow> string \<Rightarrow> string" where
  "ToLower unicodeLower s =
     (if list_all isASCII s then map asciiLower s else unicodeLower s)"

text \<open>
  The test of the loop in \<open>normalizeProjectName\<close>:
  \<open>(r >= 'a' && r <= 'z') || (r >= '0' && r <= '9') || r == '-' || r == '_' || r == '.'\<close>.
  The loop ranges over the runes of the lowered string; every rune it keeps is a
  one-byte rune, and in UTF-8 a byte below 128 is always a rune of its own, so the
  loop keeps exactly the bytes that pass the test.
\<close>

definition isLowerLetter :: "char \<Rightarrow> bool" where
  "isLowerLetter r = (97 \<le> (of_char r :: nat) \<and> (of_char r :: nat) \<le> 122)"

definition isDigit :: "char \<Rightarrow> bool" where
  "isDigit r = (48 \<le> (of_char r :: nat) \<and> (of_char r :: nat) \<le> 57)"

definition keptRune :: "char \<Rightarrow> bool" where
  "keptRune r =
     (isLowerLetter r \<or> isDigit r \<or> r = CHR ''-'' \<or> r = CHR ''_'' \<or> r = CHR ''.'')"

definition normalizeProjectName :: "(string \<Rightarrow> string) \<Rightarrow> string \<Rightarrow> string" where
  "normalizeProjectName unicodeLower name =
     (let normalized = ToLower unicodeLower name;
          b = filter keptRune normalized
      in TrimLeft b ''-_.'')"

text \<open>The pattern \<open>^[a-z0-9][a-z0-9_.-]*$\<close> as a predicate on the whole string.\<close>

fun matchesProjectNamePattern :: "string \<Rightarrow> bool" where
  "matchesProjectNamePattern [] = False"
| "matchesProjectNamePattern (c # cs) =
     ((isLowerLetter c \<or> isDigit c) \<and> list_all keptRune cs)"

subsection \<open>path/filepath on Unix\<close>

text \<open>
  \<open>filepath.Clean\<close>, \<open>filepath.Dir\<close> and \<open>filepath.Base\<close> of the Go standard
  library, for the separator \<open>/\<close> and no volume name. \<open>Clean\<close> works on the
  elements between separators: empty elements and \<open>.\<close> are dropped, \<open>..\<close> removes the
  element before it, is dropped at the root and is kept at the start of a relative
  path; an empty result is \<open>.\<close>.
\<close>

fun cleanElems :: "bool \<Rightarrow> string list \<Rightarrow> string list \<Rightarrow> string list" where
  "cleanElems rooted out [] = out"
| "cleanElems rooted out (e # es) =
     (if e = [] \<or> e = ''.'' then cleanElems rooted out es
      else if e = ''..'' then
        (if out \<noteq> [] \<and> last out \<noteq> ''..'' then cleanElems rooted (butlast out) es
         else if rooted then cleanElems rooted out es
         else cleanElems rooted (out @ [e]) es)
      else cleanElems rooted (out @ [e]) es)"

fun joinSlash :: "string list \<Rightarrow> string" where
  "joinSlash [] = []"
| "joinSlash [e] = e"
| "joinSlash (e # es) = e @ ''/'' @ joinSlash es"

definition Clean :: "string \<Rightarrow> string" where
  "Clean p =
     (if p = [] then ''.''
      else
        (let rooted = (hd p = CHR ''/'');
             out = (if rooted then ''/'' else []) @ joinSlash (cleanElems rooted [] (Split p (CHR ''/'')))
         in if out = [] then ''.'' else out))"

definition Dir :: "string \<Rightarrow> string" where
  "Dir p = Clean (rev (dropWhile (\<lambda>c. c \<noteq> CHR ''/'') (rev p)))"

definition Base :: "string \<Rightarrow> string" where
  "Base p =
     (if p = [] then ''.''
      else
        (let q = rev (dropWhile (\<lambda>c. c = CHR ''/'') (rev p));
             r = rev (takeWhile (\<lambda>c. c \<noteq> CHR ''/'') (rev q))
         in if r = [] then ''/'' else r))"

subsection \<open>The compose file\<close>

text \<open>
  A YAML value decoded into \<open>interface{}\<close>: the code only asks whether it is a string, a
  mapping with string keys, or something else.
\<close>

datatype yaml = YString string | YMap "(string \<times> yaml) list" | YOther

record Service =
  Image :: string
  Volumes :: "yaml list"

text \<open>
  \<open>Services\<close> is a Go map: the association list has one entry per key, and its order is
  the order in which \<open>range\<close> happens to visit the keys in this run.
\<close>

record ComposeFile =
  Name :: string
  Services :: "(string \<times> Service) list"
  path :: string

text \<open>
  \<open>LoadComposeFile\<close>: \<open>os.ReadFile\<close> and \<open>yaml.Unmarshal\<close> are the parameters
  \<open>readFile\<close> and \<open>unmarshal\<close>.
\<close>

definition LoadComposeFile ::
  "(string \<Rightarrow> error + string) \<Rightarrow> (string \<Rightarrow> error + ComposeFile) \<Rightarrow> string
     \<Rightarrow> error + ComposeFile" where
  "LoadComposeFile readFile unmarshal p =
     (case readFile p of
        Inl err \<Rightarrow> Inl err
      | Inr data \<Rightarrow>
          (case unmarshal data of
             Inl err \<Rightarrow> Inl err
           | Inr cf \<Rightarrow> Inr (cf\<lparr>path := p\<rparr>)))"

text \<open>
  The process environment is a map from variable names to values; \<open>os.Getenv\<close> gives
  the empty string for a variable that is not set. \<open>os.Getwd\<close> is the parameter
  \<open>getwd\<close>.
\<close>

definition Getenv :: "(string \<rightharpoonup> string) \<Rightarrow> string \<Rightarrow> string" where
  "Getenv env k = (case env k of None \<Rightarrow> [] | Some v \<Rightarrow> v)"

definition GetProjectName ::
  "(string \<Rightarrow> string) \<Rightarrow> (string \<rightharpoonup> string) \<Rightarrow> (error + string) \<Rightarrow> ComposeFile \<Rightarrow> string
     \<Rightarrow> string" where
  "GetProjectName unicodeLower env getwd cf override =
     (if override \<noteq> [] then normalizeProjectName unicodeLower override
      else if Name cf \<noteq> [] then normalizeProjectName unicodeLower (Name cf)
      else if Getenv env ''COMPOSE_PROJECT_NAME'' \<noteq> []
        then normalizeProjectName unicodeLower (Getenv env ''COMPOSE_PROJECT_NAME'')
      else
        (let dir = Dir (path cf) in
         if dir = ''.'' then
           (case getwd of
              Inr cwd \<Rightarrow> normalizeProjectName unicodeLower (Base cwd)
            | Inl err \<Rightarrow> normalizeProjectName unicodeLower (Base dir))
         else normalizeProjectName unicodeLower (Base dir)))"

subsection \<open>Named volumes of a service\<close>

record VolumeMapping =
  vmVolumeName :: string
  vmMountPath :: string
  vmService :: string

text \<open>
  The test that both branches of \<open>GetVolumeMapping\<close> apply to \<open>source\<close>:
  \<open>!HasPrefix(source, "/") && !HasPrefix(source, ".") && !HasPrefix(source, "~")\<close>.
\<close>

definition namedSource :: "string \<Rightarrow> bool" where
  "namedSource source =
     (\<not> HasPrefix source ''/'' \<and> \<not> HasPrefix source ''.'' \<and> \<not> HasPrefix source ''~'')"

text \<open>
  One pass of the loop body of \<open>GetVolumeMapping\<close>: \<open>None\<close> is \<open>continue\<close> (or a
  \<open>switch\<close> that matches no case), \<open>Some m\<close> is the mapping appended.
\<close>

definition volSpecMapping :: "string \<Rightarrow> yaml \<Rightarrow> VolumeMapping option" where
  "volSpecMapping serviceName volSpec =
     (case volSpec of
        YString v \<Rightarrow>
          (let parts = Split v (CHR '':'') in
           if length parts < 2 then None
           else
             (let source = parts ! 0; target = parts ! 1 in
              if namedSource source
              then Some \<lparr>vmVolumeName = source, vmMountPath = target, vmService = serviceName\<rparr>
              else None))
      | YMap v \<Rightarrow>
          (case map_of v ''source'' of
             None \<Rightarrow> None
           | Some srcVal \<Rightarrow>
               (case map_of v ''target'' of
                  None \<Rightarrow> None
                | Some tgtVal \<Rightarrow>
                    (case srcVal of
                       YString source \<Rightarrow>
                         (case tgtVal of
                            YString target \<Rightarrow>
                              (if source = [] \<or> target = [] then None
                               else
                                 (case map_of v ''type'' of
                                    Some (YString typeStr) \<Rightarrow>
                                      (if typeStr \<noteq> ''volume'' then None
                                       else if namedSource source
                                       then Some \<lparr>vmVolumeName = source, vmMountPath = target,
                                                   vmService = serviceName\<rparr>
                                       else None)
                                  | _ \<Rightarrow>
                                      (if namedSource source
                                       then Some \<lparr>vmVolumeName = source, vmMountPath = target,
                                                   vmService = serviceName\<rparr>
                                       else None)))
                          | _ \<Rightarrow> None)
                     | _ \<Rightarrow> None)))
      | YOther \<Rightarrow> None)"

definition GetVolumeMapping :: "ComposeFile \<Rightarrow> string \<Rightarrow> error + VolumeMapping list" where
  "GetVolumeMapping cf serviceName =
     (case map_of (Services cf) serviceName of
        None \<Rightarrow> Inl (ErrNew (''service '' @ serviceName @ '' not found''))
      | Some service \<Rightarrow> Inr (List.map_filter (volSpecMapping serviceName) (Volumes service)))"


definition GetFullVolumeName :: "ComposeFile \<Rightarrow> string \<Rightarrow> string \<Rightarrow> error + string" where
  "GetFullVolumeName cf serviceName projectName =
     (case GetVolumeMapping cf serviceName of
        Inl err \<Rightarrow> Inl err
      | Inr mappings \<Rightarrow>
          (case mappings of
             [] \<Rightarrow> Inl (ErrNew (''no named volumes found for service '' @ serviceName))
           | m # ms \<Rightarrow> Inr (projectName @ ''_'' @ vmVolumeName m)))"



definition GetServiceByVolumeName :: "ComposeFile \<Rightarrow> string \<Rightarrow> string \<Rightarrow> error + string" where
  "GetServiceByVolumeName cf volumeName projectName =
     (let prefix = projectName @ ''_'';
          shortName = (if HasPrefix volumeName prefix then drop (length prefix) volumeName
                       else volumeName)
      in case find (\<lambda>(serviceName, service).
                      (case GetVolumeMapping cf serviceName of
                         Inl err \<Rightarrow> False
                       | Inr mappings \<Rightarrow> list_ex (\<lambda>m. vmVolumeName m = shortName) mappings))
                   (Services cf) of
           Some (serviceName, service) \<Rightarrow> Inr serviceName
         | None \<Rightarrow> Inl (ErrNew (''no service found using volume '' @ volumeName)))"

section \<open>The command context (package commands)\<close>

record Defaults =
  CompressFormat :: string
  KeepGenerations :: int
  StopBeforeBackup :: bool

record Paths =
  Backups :: string
  Archives :: string

record Config =
  cfgDefaults :: Defaults
  cfgPaths :: Paths
  cfgProjects :: "string \<rightharpoonup> int"

text \<open>
  \<open>cfgProjects\<close> maps a project name to the \<open>KeepGenerations\<close> of its \<open>Project\<close> entry,
  the only field of that struct. The Docker client and the metadata database of the
  Go \<open>Context\<close> are outside the program; each function below takes what it asks of them
  as a parameter.
\<close>

record Context =
  ctxConfig :: Config
  Compose :: "ComposeFile option"
  ProjectName :: string
  Verbose :: bool
  Quiet :: bool

definition ErrVolumeNotFound :: error where
  "ErrVolumeNotFound = ErrNew ''volume not found''"


definition ErrBackupNotFound :: error where
  "ErrBackupNotFound = ErrNew ''backup not found''"

definition ResolveVolumeName :: "Context \<Rightarrow> (string \<Rightarrow> bool) \<Rightarrow> string \<Rightarrow> error + string" where
  "ResolveVolumeName c VolumeExists serviceOrVolume =
     (case (case Compose c of
              Some cf \<Rightarrow>
                (case GetFullVolumeName cf serviceOrVolume (ProjectName c) of
                   Inr fullName \<Rightarrow> Some fullName
                 | Inl err \<Rightarrow> None)
            | None \<Rightarrow> None) of
        Some fullName \<Rightarrow> Inr fullName
      | None \<Rightarrow>
          (if VolumeExists serviceOrVolume then Inr serviceOrVolume
           else if ProjectName c \<noteq> [] \<and> VolumeExists (ProjectName c @ ''_'' @ serviceOrVolume)
             then Inr (ProjectName c @ ''_'' @ serviceOrVolume)
           else Inl ErrVolumeNotFound))"

definition GetServiceName :: "Context \<Rightarrow> string \<Rightarrow> string" where
  "GetServiceName c volumeName =
     (case Compose c of
        None \<Rightarrow> []
      | Some cf \<Rightarrow>
          (case GetServiceByVolumeName cf volumeName (ProjectName c) of
             Inl err \<Rightarrow> []
           | Inr serviceName \<Rightarrow> serviceName))"

subsection \<open>Clean: choosing the volumes (internal/commands/clean.go)\<close>

text \<open>
  A \<open>time.Time\<close> is the number of nanoseconds since the zero time, so \<open>IsZero\<close> is
  equality with 0. \<open>Sub\<close> gives a \<open>Duration\<close>, a signed 64-bit count of nanoseconds that
  saturates. \<open>int(d.Hours() / 24)\<close> is the number of whole days, rounded towards zero.
\<close>

type_synonym time = int

definition IsZero :: "time \<Rightarrow> bool" where
  "IsZero t = (t = 0)"

definition Sub :: "time \<Rightarrow> time \<Rightarrow> int" where
  "Sub t u = max (- (2 ^ 63)) (min (2 ^ 63 - 1) (t - u))"

definition wholeDays :: "int \<Rightarrow> int" where
  "wholeDays d = sgn d * (\<bar>d\<bar> div (24 * 3600 * 1000000000))"

record VolumeMetadata =
  mdVolumeName :: string
  LastAccessed :: time
  LastBackup :: time
  BackupCount :: int

record CleanOptions =
  Unused :: bool
  Stale :: int
  DryRun :: bool
  Archive :: bool
  Force :: bool

text \<open>
  The body of the filter loop of \<open>Clean\<close> for one volume name. \<open>IsVolumeInUse\<close> and
  \<open>GetVolumeMetadata\<close> are the calls to the engine and the database; their errors are
  discarded as in the source (\<open>inUse\<close> is then \<open>false\<close>, \<open>meta\<close> is then \<open>nil\<close>).
\<close>

definition shouldClean ::
  "(string \<Rightarrow> error + bool) \<Rightarrow> (string \<Rightarrow> error + VolumeMetadata) \<Rightarrow> CleanOptions \<Rightarrow> string
     \<Rightarrow> bool" where
  "shouldClean IsVolumeInUse GetVolumeMetadata opts volName =
     (let c1 = (if Unused opts
                then (let inUse = (case IsVolumeInUse volName of Inr b \<Rightarrow> b | Inl err \<Rightarrow> False)
                      in \<not> inUse)
                else False);
          c2 = (if Stale opts > 0
                then (case GetVolumeMetadata volName of
                        Inl err \<Rightarrow> False
                      | Inr meta \<Rightarrow>
                          (if \<not> IsZero (LastAccessed meta)
                           then (let daysSince = wholeDays (Sub (LastAccessed meta) (LastAccessed meta))
                                 in daysSince \<ge> Stale opts)
                           else False))
                else False)
      in c1 \<or> c2)"

definition volumesToClean ::
  "(string \<Rightarrow> error + bool) \<Rightarrow> (string \<Rightarrow> error + VolumeMetadata) \<Rightarrow> CleanOptions
     \<Rightarrow> string list \<Rightarrow> string list" where
  "volumesToClean IsVolumeInUse GetVolumeMetadata opts volumes =
     filter (shouldClean IsVolumeInUse GetVolumeMetadata opts) volumes"

text \<open>
  What the claim asks of the staleness test, in the claim's words: the last access is
  recorded and at least \<open>S\<close> whole days lie between it and \<open>now\<close>.
\<close>

definition staleByAge :: "time \<Rightarrow> int \<Rightarrow> time \<Rightarrow> bool" where
  "staleByAge now S lastAccessed =
     (lastAccessed \<noteq> 0 \<and> wholeDays (Sub now lastAccessed) \<ge> S)"

subsection \<open>Clone: the target volume name (commands, first definition of Clone)\<close>

record CloneOptions =
  cloneService :: string
  NewName :: string

text \<open>
  A call either returns normally, returns an error, or panics. The slice expression
  \<open>targetVolume[:len(c.ProjectName)]\<close> panics when the bound exceeds the length.
\<close>

datatype fault = Failed error | Panicked

definition Clone_targetVolume ::
  "Context \<Rightarrow> (string \<Rightarrow> bool) \<Rightarrow> CloneOptions \<Rightarrow> fault + string" where
  "Clone_targetVolume c VolumeExists opts =
     (if cloneService opts = [] then Inl (Failed (ErrNew ''service name is required''))
      else if NewName opts = [] then Inl (Failed (ErrNew ''new name is required''))
      else
        (case ResolveVolumeName c VolumeExists (cloneService opts) of
           Inl err \<Rightarrow> Inl (Failed err)
         | Inr sourceVolume \<Rightarrow>
             (let targetVolume = NewName opts in
              if ProjectName c \<noteq> [] then
                (if length (ProjectName c) > length targetVolume then Inl Panicked
                 else if take (length (ProjectName c)) targetVolume \<noteq> ProjectName c @ ''_''
                   then Inr (ProjectName c @ ''_'' @ targetVolume)
                 else Inr targetVolume)
              else Inr targetVolume)))"

section \<open>Configuration (internal/config/config.go)\<close>

text \<open>\<open>filepath.Join\<close>: leading empty elements are dropped, the rest is joined and cleaned.\<close>

definition Join :: "string list \<Rightarrow> string" where
  "Join elem =
     (case dropWhile (\<lambda>e. e = []) elem of
        [] \<Rightarrow> []
      | e # es \<Rightarrow> Clean (joinSlash (e # es)))"

text \<open>\<open>DefaultConfig\<close>; \<open>home\<close> is the result of \<open>os.UserHomeDir\<close>.\<close>

definition DefaultConfig :: "string \<Rightarrow> Config" where
  "DefaultConfig home =
     \<lparr>cfgDefaults = \<lparr>CompressFormat = ''tar.gz'', KeepGenerations = 5, StopBeforeBackup = False\<rparr>,
      cfgPaths = \<lparr>Backups = Join [home, ''.dvm'', ''backups''],
                  Archives = Join [home, ''.dvm'', ''archives'']\<rparr>,
      cfgProjects = Map.empty\<rparr>"

section \<open>Named-volume classification in the words of the specification\<close>

text \<open>
  The specification describes a volume spec by its source, its target and, for the long
  form, its optional type. \<open>specSourceTarget\<close> reads source and target off an entry:
  the first two colon-separated fields of the short form, the two non-empty string
  fields of the long form. \<open>specType\<close> is the type given as a string in a long-form
  entry. \<open>isNamedVolumeSpec\<close> is the classification of the specification: the source is
  not absolute, not dot-relative, not home-relative, and a type that is given is
  \<open>volume\<close>.
\<close>

definition specSourceTarget :: "yaml \<Rightarrow> (string \<times> string) option" where
  "specSourceTarget spec =
     (case spec of
        YString v \<Rightarrow>
          (case Split v (CHR '':'') of
             src # tgt # rest \<Rightarrow> Some (src, tgt)
           | _ \<Rightarrow> None)
      | YMap m \<Rightarrow>
          (case (map_of m ''source'', map_of m ''target'') of
             (Some (YString src), Some (YString tgt)) \<Rightarrow>
               (if src = [] \<or> tgt = [] then None else Some (src, tgt))
           | _ \<Rightarrow> None)
      | YOther \<Rightarrow> None)"

definition specType :: "yaml \<Rightarrow> string option" where
  "specType spec =
     (case spec of
        YMap m \<Rightarrow> (case map_of m ''type'' of Some (YString t) \<Rightarrow> Some t | _ \<Rightarrow> None)
      | _ \<Rightarrow> None)"

definition beginsWithPathMarker :: "string \<Rightarrow> bool" where
  "beginsWithPathMarker src =
     (case src of
        [] \<Rightarrow> False
      | c # cs \<Rightarrow> c = CHR ''/'' \<or> c = CHR ''.'' \<or> c = CHR ''~'')"

definition isNamedVolumeSpec :: "yaml \<Rightarrow> bool" where
  "isNamedVolumeSpec spec =
     (case specSourceTarget spec of
        None \<Rightarrow> False
      | Some (src, tgt) \<Rightarrow>
          \<not> beginsWithPathMarker src
          \<and> (case specType spec of None \<Rightarrow> True | Some t \<Rightarrow> t = ''volume''))"

definition namedVolumeOf :: "string \<Rightarrow> yaml \<Rightarrow> VolumeMapping option" where
  "namedVolumeOf serviceName spec =
     (if isNamedVolumeSpec spec
      then map_option (\<lambda>(src, tgt). \<lparr>vmVolumeName = src, vmMountPath = tgt,
                                     vmService = serviceName\<rparr>)
             (specSourceTarget spec)
      else None)"

section \<open>Restore: finding the backup file (internal/commands/utils.go)\<close>

text \<open>
  The loop of \<open>FindBackupFile\<close> over the matches. \<open>Stat\<close> gives the modification time
  of a path or an error; \<open>After\<close> is the strict order on times.
\<close>

fun latestLoop :: "(string \<Rightarrow> error + time) \<Rightarrow> string list \<Rightarrow> string \<Rightarrow> time \<Rightarrow> string" where
  "latestLoop Stat [] latest latestTime = latest"
| "latestLoop Stat (match # matches) latest latestTime =
     (case Stat match of
        Inl err \<Rightarrow> latestLoop Stat matches latest latestTime
      | Inr modTime \<Rightarrow>
          (if latest = [] \<or> modTime > latestTime
           then latestLoop Stat matches match modTime
           else latestLoop Stat matches latest latestTime))"

text \<open>
  \<open>FindBackupFile\<close>; \<open>filepath.Glob\<close> and \<open>os.Stat\<close> are the parameters \<open>Glob\<close> and
  \<open>Stat\<close>. The zero \<open>time.Time\<close> is 0.
\<close>

definition FindBackupFile ::
  "(string \<Rightarrow> error + string list) \<Rightarrow> (string \<Rightarrow> error + time) \<Rightarrow> string \<Rightarrow> string
     \<Rightarrow> error + string" where
  "FindBackupFile Glob Stat backupDir serviceName =
     (case Glob (Join [backupDir, serviceName @ ''_*.tar.gz'']) of
        Inl err \<Rightarrow> Inl err
      | Inr gz \<Rightarrow>
          (case (if length gz = 0
                 then Glob (Join [backupDir, serviceName @ ''_*.tar.zst''])
                 else Inr gz) of
             Inl err \<Rightarrow> Inl err
           | Inr matches \<Rightarrow>
               (if length matches = 0 then Inl ErrBackupNotFound
                else
                  (let latest = latestLoop Stat matches [] 0 in
                   if latest = [] then Inl ErrBackupNotFound else Inr latest))))"

text \<open>
  The part of \<open>restoreService\<close> that picks the file when neither \<open>List\<close> nor \<open>Select\<close>
  is set: the result is the backup file and the volume to restore into.
\<close>

definition restoreService_latest ::
  "Context \<Rightarrow> (string \<Rightarrow> bool) \<Rightarrow> (string \<Rightarrow> error + string list) \<Rightarrow> (string \<Rightarrow> error + time)
     \<Rightarrow> string \<Rightarrow> error + (string \<times> string)" where
  "restoreService_latest c VolumeExists Glob Stat serviceName =
     (let volumeName = (case ResolveVolumeName c VolumeExists serviceName of
                          Inl err \<Rightarrow> serviceName
                        | Inr v \<Rightarrow> v);
          svcName = (let s = GetServiceName c volumeName in if s = [] then serviceName else s);
          backupDir = Join [Backups (cfgPaths (ctxConfig c)), ProjectName c]
      in case FindBackupFile Glob Stat backupDir svcName of
           Inl err \<Rightarrow> Inl (ErrWrap (''no backup found for '' @ svcName @ '': '') err [])
         | Inr backupFile \<Rightarrow> Inr (backupFile, volumeName))"

text \<open>
  The candidates the claim speaks of: the files of the backup directory that match the
  name prefix with either archive extension.
\<close>

definition allBackupMatches ::
  "(string \<Rightarrow> error + string list) \<Rightarrow> string \<Rightarrow> string \<Rightarrow> string list" where
  "allBackupMatches Glob backupDir serviceName =
     (case Glob (Join [backupDir, serviceName @ ''_*.tar.gz'']) of Inl err \<Rightarrow> [] | Inr ms \<Rightarrow> ms)
     @ (case Glob (Join [backupDir, serviceName @ ''_*.tar.zst'']) of Inl err \<Rightarrow> [] | Inr ms \<Rightarrow> ms)"

text \<open>The candidates the code looks at: the \<open>.tar.gz\<close> matches, or, when there are none,
  the \<open>.tar.zst\<close> matches.\<close>

definition searchedMatches ::
  "(string \<Rightarrow> error + string list) \<Rightarrow> string \<Rightarrow> string \<Rightarrow> string list" where
  "searchedMatches Glob backupDir serviceName =
     (case Glob (Join [backupDir, serviceName @ ''_*.tar.gz'']) of
        Inl err \<Rightarrow> []
      | Inr gz \<Rightarrow>
          (if gz = []
           then (case Glob (Join [backupDir, serviceName @ ''_*.tar.zst'']) of
                   Inl err \<Rightarrow> []
                 | Inr zst \<Rightarrow> zst)
           else gz))"

section \<open>Swap (package commands)\<close>

record SwapOptions =
  swEmpty :: bool
  swNoBackup :: bool
  swRestart :: bool
  swService :: string
  swSource :: string

text \<open>\<open>GenerateBackupFilename\<close>; \<open>timestamp\<close> is \<open>time.Now().Format("2006-01-02_150405")\<close>.\<close>

definition GenerateBackupFilename :: "string \<Rightarrow> string \<Rightarrow> string \<Rightarrow> string" where
  "GenerateBackupFilename timestamp serviceName format =
     (let extension = (if format = ''tar.zst'' then ''.tar.zst''
                       else if format = ''tar'' then ''.tar''
                       else ''.tar.gz'')
      in serviceName @ ''_'' @ timestamp @ extension)"

text \<open>
  The calls of \<open>Swap\<close> that change the container engine, in the order they are made.
\<close>

datatype call =
    BackupVolume string string bool
  | StopContainersUsingVolume string
  | RemoveVolume string bool
  | CreateVolume string
  | RestoreVolume string string
  | RestartContainersUsingVolume string

text \<open>
  What the engine, the file system and the database answer during one run of \<open>Swap\<close>.
  Every call but \<open>VolumeExists\<close> is made at most once in a run, so one answer per call
  describes every run; \<open>None\<close> is a \<open>nil\<close> error.
\<close>

record SwapEngine =
  seVolumeExists :: "string \<Rightarrow> bool"
  seEnsureDirectory :: "error option"
  seTimestamp :: string
  seBackupVolume :: "error option"
  seAddBackupRecord :: "error option"
  seGetContainersUsingVolume :: "error + string list"
  seStopContainers :: "error option"
  seRemoveVolume :: "error option"
  seCreateVolume :: "error option"
  seRestoreVolume :: "error option"
  seRestartContainers :: "error option"

text \<open>
  The closure \<open>restartOnError\<close> of \<open>Swap\<close>: \<open>tr\<close> is the trace of engine calls so far;
  the result is the trace and the error that \<open>Swap\<close> returns.
\<close>

definition restartOnError ::
  "SwapEngine \<Rightarrow> string \<Rightarrow> bool \<Rightarrow> string list \<Rightarrow> call list \<Rightarrow> error
     \<Rightarrow> call list \<times> error option" where
  "restartOnError e volumeName containersStopped containers tr err =
     (if containersStopped \<and> length containers > 0 then
        (case seRestartContainers e of
           Some restartErr \<Rightarrow>
             (tr @ [RestartContainersUsingVolume volumeName],
              Some (ErrWrap [] err
                      ('' (also failed to restart containers: '' @ Error restartErr @ '')'')))
         | None \<Rightarrow> (tr @ [RestartContainersUsingVolume volumeName], Some err))
      else (tr, Some err))"

text \<open>The steps of \<open>Swap\<close> from the deletion of the volume to the end.\<close>

definition Swap_replace ::
  "SwapEngine \<Rightarrow> SwapOptions \<Rightarrow> string \<Rightarrow> bool \<Rightarrow> string list \<Rightarrow> call list
     \<Rightarrow> call list \<times> error option" where
  "Swap_replace e opts volumeName containersStopped containers tr =
     (case seRemoveVolume e of
        Some err \<Rightarrow>
          restartOnError e volumeName containersStopped containers
            (tr @ [RemoveVolume volumeName True])
            (ErrWrap ''failed to remove volume: '' err [])
      | None \<Rightarrow>
          (case seCreateVolume e of
             Some err \<Rightarrow>
               restartOnError e volumeName containersStopped containers
                 (tr @ [RemoveVolume volumeName True, CreateVolume volumeName])
                 (ErrWrap ''failed to create volume: '' err [])
           | None \<Rightarrow>
               (let tr2 = tr @ [RemoveVolume volumeName True, CreateVolume volumeName] in
                case (if swSource opts \<noteq> [] \<and> \<not> swEmpty opts
                      then (case seRestoreVolume e of
                              Some err \<Rightarrow> Inl err
                            | None \<Rightarrow> Inr (tr2 @ [RestoreVolume volumeName (swSource opts)]))
                      else Inr tr2) of
                  Inl err \<Rightarrow>
                    restartOnError e volumeName containersStopped containers
                      (tr2 @ [RestoreVolume volumeName (swSource opts)])
                      (ErrWrap ''restore failed: '' err [])
                | Inr tr3 \<Rightarrow>
                    (if swRestart opts \<and> length containers > 0
                     then (tr3 @ [RestartContainersUsingVolume volumeName], None)
                     else (tr3, None)))))"

definition Swap :: "Context \<Rightarrow> SwapEngine \<Rightarrow> SwapOptions \<Rightarrow> call list \<times> error option" where
  "Swap c e opts =
     (if swService opts = [] then ([], Some (ErrNew ''service name is required''))
      else
        (case ResolveVolumeName c (seVolumeExists e) (swService opts) of
           Inl err \<Rightarrow> ([], Some err)
         | Inr volumeName \<Rightarrow>
             (let serviceName = (let s = GetServiceName c volumeName
                                 in if s = [] then swService opts else s)
              in
              if \<not> seVolumeExists e volumeName then ([], Some ErrVolumeNotFound)
              else
                (case (if \<not> swNoBackup opts then
                         (let backupDir = Join [Backups (cfgPaths (ctxConfig c)), ProjectName c] in
                          case seEnsureDirectory e of
                            Some err \<Rightarrow>
                              Inl ([], ErrWrap ''failed to create backup directory: '' err [])
                          | None \<Rightarrow>
                              (let filename = GenerateBackupFilename (seTimestamp e)
                                                (serviceName @ ''_swap_backup'')
                                                (CompressFormat (cfgDefaults (ctxConfig c)));
                                   backupPath = Join [backupDir, filename]
                               in case seBackupVolume e of
                                    Some err \<Rightarrow>
                                      Inl ([BackupVolume volumeName backupPath True],
                                           ErrWrap ''backup failed: '' err [])
                                  | None \<Rightarrow> Inr [BackupVolume volumeName backupPath True]))
                       else Inr []) of
                   Inl (tr, err) \<Rightarrow> (tr, Some err)
                 | Inr tr1 \<Rightarrow>
                     (let containers = (case seGetContainersUsingVolume e of
                                          Inr cs \<Rightarrow> cs
                                        | Inl err \<Rightarrow> [])
                      in
                      if length containers > 0 then
                        (case seStopContainers e of
                           Some err \<Rightarrow>
                             (tr1 @ [StopContainersUsingVolume volumeName],
                              Some (ErrWrap ''failed to stop containers: '' err []))
                         | None \<Rightarrow>
                             Swap_replace e opts volumeName True containers
                               (tr1 @ [StopContainersUsingVolume volumeName]))
                      else Swap_replace e opts volumeName False containers tr1)))))"

text \<open>
  The two observations the claim makes of a failed \<open>Swap\<close>: the trace of engine calls
  ends with the failing call followed by the restart of the containers, and the error
  returned is the primary error itself when the restart succeeded, or else an error
  that wraps the primary error and whose message is the primary message followed by the
  restart failure.
\<close>

definition endsWith :: "call list \<Rightarrow> call list \<Rightarrow> bool" where
  "endsWith tr suffix =
     (length suffix \<le> length tr \<and> drop (length tr - length suffix) tr = suffix)"

definition surfaces :: "error option \<Rightarrow> error \<Rightarrow> error option \<Rightarrow> bool" where
  "surfaces returned primary restartResult =
     (case restartResult of
        None \<Rightarrow> returned = Some primary
      | Some restartErr \<Rightarrow>
          (case returned of
             None \<Rightarrow> False
           | Some err \<Rightarrow>
               Unwrap err = Some primary
               \<and> Error err = Error primary @ '' (also failed to restart containers: ''
                               @ Error restartErr @ '')''))"

section \<open>The backup ledger (package database) and Backup (internal/commands/backup.go)\<close>

record BackupRecord =
  brID :: nat
  brVolumeName :: string
  brServiceName :: string
  brProjectName :: string
  brFilePath :: string
  brSize :: int
  brCreatedAt :: time
  brTag :: string
  brChecksum :: string

text \<open>
  What lies outside the program and is changed by a backup: the rows of the table
  \<open>backup_records\<close> with the next value of its \<open>AUTOINCREMENT\<close> key, the table
  \<open>volume_metadata\<close>, and the archive files on disk. \<open>artifacts\<close> is a log, kept for the
  proofs only: the volume and the path of every archive that \<open>Docker.BackupVolume\<close> has
  written.
\<close>

record Store =
  backup_records :: "BackupRecord list"
  next_id :: nat
  volume_metadata :: "string \<rightharpoonup> VolumeMetadata"
  files :: "string list"
  artifacts :: "(string \<times> string) list"

text \<open>
  What the engine, the clock, the file system and the database answer during one call
  of \<open>backupVolume\<close>; \<open>None\<close> is a \<open>nil\<close> error. \<open>anOrderBy\<close> is the order in which the
  database returns the rows of a query with \<open>ORDER BY created_at DESC\<close>: SQL leaves the
  order of rows with equal \<open>created_at\<close> open, so the theorems hold for every such order.
\<close>

record Answers =
  anVolumeExists :: "string \<Rightarrow> bool"
  anStopContainers :: "error option"
  anTimestamp :: string
  anBackupVolume :: "error option"
  anFileSize :: int
  anChecksum :: string
  anAddBackupRecord :: "error option"
  anNow :: time
  anUpdateLastBackup :: "error option"
  anGetBackupRecords :: "error option"
  anOrderBy :: "BackupRecord list \<Rightarrow> BackupRecord list"
  anDeleteBackupRecord :: "nat \<Rightarrow> error option"
  anRemove :: "string \<Rightarrow> error option"

text \<open>
  \<open>AddBackupRecord\<close>: the \<open>INSERT\<close> names neither \<open>id\<close> nor \<open>created_at\<close>; the database
  fills in the next key and the current time.
\<close>

definition AddBackupRecord :: "Answers \<Rightarrow> Store \<Rightarrow> BackupRecord \<Rightarrow> error + Store" where
  "AddBackupRecord an st record =
     (case anAddBackupRecord an of
        Some err \<Rightarrow> Inl err
      | None \<Rightarrow>
          Inr (st\<lparr>backup_records :=
                    backup_records st @ [record\<lparr>brID := next_id st, brCreatedAt := anNow an\<rparr>],
                  next_id := Suc (next_id st)\<rparr>))"

definition UpdateLastBackup :: "Answers \<Rightarrow> Store \<Rightarrow> string \<Rightarrow> error + Store" where
  "UpdateLastBackup an st volumeName =
     (case anUpdateLastBackup an of
        Some err \<Rightarrow> Inl err
      | None \<Rightarrow>
          Inr (st\<lparr>volume_metadata :=
                    (volume_metadata st)
                      (volumeName \<mapsto>
                         (case volume_metadata st volumeName of
                            None \<Rightarrow> \<lparr>mdVolumeName = volumeName, LastAccessed = 0,
                                     LastBackup = anNow an, BackupCount = 1\<rparr>
                          | Some m \<Rightarrow> m\<lparr>LastBackup := anNow an,
                                        BackupCount := BackupCount m + 1\<rparr>))\<rparr>))"

definition GetBackupRecords ::
  "Answers \<Rightarrow> Store \<Rightarrow> string \<Rightarrow> int \<Rightarrow> error + BackupRecord list" where
  "GetBackupRecords an st volumeName limit =
     (case anGetBackupRecords an of
        Some err \<Rightarrow> Inl err
      | None \<Rightarrow>
          (let rows = anOrderBy an (filter (\<lambda>r. brVolumeName r = volumeName) (backup_records st))
           in Inr (if limit > 0 then take (nat limit) rows else rows)))"

definition DeleteBackupRecord :: "Answers \<Rightarrow> Store \<Rightarrow> nat \<Rightarrow> error + Store" where
  "DeleteBackupRecord an st ident =
     (case anDeleteBackupRecord an ident of
        Some err \<Rightarrow> Inl err
      | None \<Rightarrow> Inr (st\<lparr>backup_records := filter (\<lambda>r. brID r \<noteq> ident) (backup_records st)\<rparr>))"

text \<open>The loop of \<open>CleanupOldBackups\<close> over \<open>toDelete\<close>; it stops at the first error.\<close>

fun deleteLoop :: "Answers \<Rightarrow> Store \<Rightarrow> BackupRecord list \<Rightarrow> Store \<times> error option" where
  "deleteLoop an st [] = (st, None)"
| "deleteLoop an st (record # records) =
     (case DeleteBackupRecord an st (brID record) of
        Inl err \<Rightarrow> (st, Some err)
      | Inr st' \<Rightarrow> deleteLoop an st' records)"

text \<open>
  \<open>CleanupOldBackups\<close>. The slice \<open>records[keepGenerations:]\<close> panics for a negative
  bound; \<open>Inr []\<close> is the result \<open>nil, nil\<close>.
\<close>

definition CleanupOldBackups ::
  "Answers \<Rightarrow> Store \<Rightarrow> string \<Rightarrow> int \<Rightarrow> Store \<times> (fault + BackupRecord list)" where
  "CleanupOldBackups an st volumeName keepGenerations =
     (case GetBackupRecords an st volumeName 0 of
        Inl err \<Rightarrow> (st, Inl (Failed err))
      | Inr records \<Rightarrow>
          (if int (length records) > keepGenerations then
             (if keepGenerations < 0 then (st, Inl Panicked)
              else
                (let toDelete = drop (nat keepGenerations) records in
                 case deleteLoop an st toDelete of
                   (st', Some err) \<Rightarrow> (st', Inl (Failed err))
                 | (st', None) \<Rightarrow> (st', Inr toDelete)))
           else (st, Inr [])))"

record BackupOptions =
  boOutput :: string
  boFormat :: string
  boNoCompress :: bool
  boTag :: string
  boStop :: bool
  boServices :: "string list"

text \<open>The loop of \<open>backupVolume\<close> that removes the files of the deleted records; a failed
  \<open>os.Remove\<close> is only reported.\<close>

fun removeFiles :: "Answers \<Rightarrow> string list \<Rightarrow> BackupRecord list \<Rightarrow> string list" where
  "removeFiles an fs [] = fs"
| "removeFiles an fs (record # deleted) =
     (case anRemove an (brFilePath record) of
        Some err \<Rightarrow> removeFiles an fs deleted
      | None \<Rightarrow> removeFiles an (removeAll (brFilePath record) fs) deleted)"

definition keepGenerationsOf :: "Context \<Rightarrow> int" where
  "keepGenerationsOf c =
     (case cfgProjects (ctxConfig c) (ProjectName c) of
        Some k \<Rightarrow> (if k > 0 then k else KeepGenerations (cfgDefaults (ctxConfig c)))
      | None \<Rightarrow> KeepGenerations (cfgDefaults (ctxConfig c)))"

definition backupFormat :: "Context \<Rightarrow> BackupOptions \<Rightarrow> string" where
  "backupFormat c opts =
     (if boFormat opts = [] then CompressFormat (cfgDefaults (ctxConfig c)) else boFormat opts)"

text \<open>
  The retention block at the end of \<open>backupVolume\<close>. \<open>CleanupOldBackups\<close> is called with
  a positive bound only, so its panic cannot occur here; when it returns an error the
  files are left alone.
\<close>

definition retention :: "Context \<Rightarrow> Answers \<Rightarrow> Store \<Rightarrow> string \<Rightarrow> Store" where
  "retention c an st volumeName =
     (let keepGenerations = keepGenerationsOf c in
      if keepGenerations > 0 then
        (case CleanupOldBackups an st volumeName keepGenerations of
           (st', Inr deleted) \<Rightarrow>
             (if length deleted > 0
              then st'\<lparr>files := removeFiles an (files st') deleted\<rparr>
              else st')
         | (st', Inl f) \<Rightarrow> st')
      else st)"

text \<open>The path of the archive that \<open>backupVolume\<close> writes for a volume.\<close>

definition archivePath :: "Context \<Rightarrow> Answers \<Rightarrow> BackupOptions \<Rightarrow> string \<Rightarrow> string \<Rightarrow> string" where
  "archivePath c an opts outputDir volumeName =
     (let format = backupFormat c opts;
          filename = GenerateBackupFilename (anTimestamp an) volumeName format
      in Join [outputDir, filename])"

definition backupVolume ::
  "Context \<Rightarrow> Answers \<Rightarrow> Store \<Rightarrow> string \<Rightarrow> string \<Rightarrow> BackupOptions \<Rightarrow> Store \<times> error option" where
  "backupVolume c an st volumeName outputDir opts =
     (if \<not> anVolumeExists an volumeName then (st, Some ErrVolumeNotFound)
      else
        (let serviceName = GetServiceName c volumeName in
         case (if boStop opts then anStopContainers an else None) of
           Some err \<Rightarrow> (st, Some (ErrWrap ''failed to stop containers: '' err []))
         | None \<Rightarrow>
             (let format = backupFormat c opts;
                  outputPath = archivePath c an opts outputDir volumeName;
                  compress = (\<not> boNoCompress opts \<and> (format = ''tar.gz'' \<or> format = ''tar.zst''))
              in
              case anBackupVolume an of
                Some err \<Rightarrow> (st, Some (ErrWrap ''backup failed: '' err []))
              | None \<Rightarrow>
                  (let st1 = st\<lparr>files := List.insert outputPath (files st),
                                 artifacts := artifacts st @ [(volumeName, outputPath)]\<rparr>;
                       record = \<lparr>brID = 0, brVolumeName = volumeName, brServiceName = serviceName,
                                 brProjectName = ProjectName c, brFilePath = outputPath,
                                 brSize = anFileSize an, brCreatedAt = 0, brTag = boTag opts,
                                 brChecksum = anChecksum an\<rparr>
                   in
                   case AddBackupRecord an st1 record of
                     Inl err \<Rightarrow>
                       (st1, Some (ErrWrap ''backup completed but failed to save backup record: ''
                                     err []))
                   | Inr st2 \<Rightarrow>
                       (case UpdateLastBackup an st2 volumeName of
                          Inl err \<Rightarrow>
                            (st2, Some (ErrWrap
                                          (''backup completed but failed to update metadata for volume ''
                                             @ volumeName @ '': '') err []))
                        | Inr st3 \<Rightarrow> (retention c an st3 volumeName, None))))))"

text \<open>
  A call of \<open>backupVolume\<close> writes an archive when the volume exists, the containers
  stop if that is asked for, and the data mover succeeds.
\<close>

definition writesArchive :: "Answers \<Rightarrow> BackupOptions \<Rightarrow> string \<Rightarrow> bool" where
  "writesArchive an opts volumeName =
     (anVolumeExists an volumeName
      \<and> (if boStop opts then anStopContainers an = None else True)
      \<and> anBackupVolume an = None)"




section \<open>Retention in the words of the specification\<close>

text \<open>
  The ledger of a volume, what it means for the database to order rows by creation
  time, newest first, and what it means for every step of a backup to succeed.
\<close>

definition ledgerOf :: "Store \<Rightarrow> string \<Rightarrow> BackupRecord list" where
  "ledgerOf st volumeName = filter (\<lambda>r. brVolumeName r = volumeName) (backup_records st)"

definition newestFirst :: "BackupRecord list \<Rightarrow> bool" where
  "newestFirst rs = sorted_wrt (\<lambda>a b. brCreatedAt a \<ge> brCreatedAt b) rs"

definition ordersByCreatedAtDesc :: "(BackupRecord list \<Rightarrow> BackupRecord list) \<Rightarrow> bool" where
  "ordersByCreatedAtDesc f = (\<forall>rs. mset (f rs) = mset rs \<and> newestFirst (f rs))"

definition succeeds :: "Answers \<Rightarrow> BackupOptions \<Rightarrow> string \<Rightarrow> bool" where
  "succeeds an opts volumeName =
     (writesArchive an opts volumeName
      \<and> anAddBackupRecord an = None
      \<and> anUpdateLastBackup an = None
      \<and> anGetBackupRecords an = None
      \<and> (\<forall>i. anDeleteBackupRecord an i = None)
      \<and> (\<forall>p. anRemove an p = None)
      \<and> ordersByCreatedAtDesc (anOrderBy an))"

text \<open>The key of \<open>backup_records\<close> is unique and below the next \<open>AUTOINCREMENT\<close> value.\<close>

definition ledgerOK :: "Store \<Rightarrow> bool" where
  "ledgerOK st =
     (distinct (map brID (backup_records st))
      \<and> list_all (\<lambda>r. brID r < next_id st) (backup_records st))"

text \<open>The row that a successful \<open>backupVolume\<close> adds to the ledger.\<close>

definition newRecord ::
  "Context \<Rightarrow> Answers \<Rightarrow> Store \<Rightarrow> string \<Rightarrow> string \<Rightarrow> BackupOptions \<Rightarrow> BackupRecord" where
  "newRecord c an st volumeName outputDir opts =
     \<lparr>brID = next_id st, brVolumeName = volumeName, brServiceName = GetServiceName c volumeName,
      brProjectName = ProjectName c, brFilePath = archivePath c an opts outputDir volumeName,
      brSize = anFileSize an, brCreatedAt = anNow an, brTag = boTag opts,
      brChecksum = anChecksum an\<rparr>"

text \<open>Successive backups of one volume, one call of \<open>backupVolume\<close> per element of \<open>ans\<close>.\<close>

fun backupTimes ::
  "Context \<Rightarrow> Answers list \<Rightarrow> Store \<Rightarrow> string \<Rightarrow> string \<Rightarrow> BackupOptions \<Rightarrow> Store" where
  "backupTimes c [] st volumeName outputDir opts = st"
| "backupTimes c (an # ans) st volumeName outputDir opts =
     backupTimes c ans (fst (backupVolume c an st volumeName outputDir opts))
       volumeName outputDir opts"

section \<open>Properties of project-name normalization\<close>

lemma keptRune_ascii: "keptRune c \<Longrightarrow> isASCII c"
  by (auto simp: keptRune_def isASCII_def isLowerLetter_def isDigit_def)

lemma keptRune_lower: "keptRune c \<Longrightarrow> asciiLower c = c"
  by (auto simp: keptRune_def asciiLower_def isLowerLetter_def isDigit_def)

lemma ToLower_kept: "list_all keptRune s \<Longrightarrow> ToLower ul s = s"
proof -
  assume k: "list_all keptRune s"
  then have "list_all isASCII s"
    by (induction s) (auto simp: keptRune_ascii)
  moreover from k have "map asciiLower s = s"
    by (induction s) (auto simp: keptRune_lower)
  ultimately show ?thesis by (simp add: ToLower_def)
qed

lemma normalize_kept: "list_all keptRune (normalizeProjectName ul x)"
proof -
  have "set (normalizeProjectName ul x) \<subseteq> set (filter keptRune (ToLower ul x))"
    unfolding normalizeProjectName_def TrimLeft_def Let_def
    by (rule subsetI) (rule set_dropWhileD)
  then show ?thesis by (auto simp: list_all_iff)
qed

lemma TrimLeft_idem: "TrimLeft (TrimLeft s cs) cs = TrimLeft s cs"
  by (simp add: TrimLeft_def)

lemma normalize_head:
  assumes eq: "normalizeProjectName ul x = c # cs"
  shows "isLowerLetter c \<or> isDigit c"
proof -
  from eq have "c \<notin> set ''-_.''"
    unfolding normalizeProjectName_def TrimLeft_def Let_def
    using hd_dropWhile[of "\<lambda>c. c \<in> set ''-_.''" "filter keptRune (ToLower ul x)"] by force
  moreover have "keptRune c" using normalize_kept[of ul x] eq by simp
  ultimately show ?thesis by (auto simp: keptRune_def)
qed

lemmas normalize_eval =
  normalizeProjectName_def ToLower_def isASCII_def asciiLower_def keptRune_def
  isLowerLetter_def isDigit_def TrimLeft_def char_of_eq_iff

text \<open>
  C6. \<open>normalizeProjectName\<close> is a total function (it has no failing branch), applying it
  twice gives the same result as applying it once, and its result is empty or matches
  \<open>^[a-z0-9][a-z0-9_.-]*$\<close>. This holds whatever the Unicode lower-casing of the
  library does to non-ASCII input.
\<close>

theorem normalizeProjectName_idempotent_pattern:
  "normalizeProjectName ul (normalizeProjectName ul x) = normalizeProjectName ul x
   \<and> (normalizeProjectName ul x = [] \<or> matchesProjectNamePattern (normalizeProjectName ul x))"
proof
  let ?y = "normalizeProjectName ul x"
  have k: "list_all keptRune ?y" by (rule normalize_kept)
  have "normalizeProjectName ul ?y = TrimLeft ?y ''-_.''"
    using k by (simp add: normalizeProjectName_def[of ul ?y] ToLower_kept list_all_iff)
  also have "\<dots> = ?y"
    by (simp add: normalizeProjectName_def[of ul x] TrimLeft_idem)
  finally show "normalizeProjectName ul ?y = ?y" .
  show "?y = [] \<or> matchesProjectNamePattern ?y"
  proof (cases ?y)
    case Nil
    then show ?thesis by simp
  next
    case (Cons c cs)
    with normalize_head[of ul x c cs] k show ?thesis by simp
  qed
qed

theorem normalizeProjectName_idempotent_pattern_witness:
  "normalizeProjectName id ''-_My Project.1'' = ''myproject.1''
   \<and> normalizeProjectName id (normalizeProjectName id ''-_My Project.1'') = ''myproject.1''
   \<and> matchesProjectNamePattern (normalizeProjectName id ''-_My Project.1'')
   \<and> normalizeProjectName id (normalizeProjectName id ''-_.'') = normalizeProjectName id ''-_.''
   \<and> normalizeProjectName id ''-_.'' = []"
  using normalizeProjectName_idempotent_pattern [of id "''-_My Project.1''"]
    normalizeProjectName_idempotent_pattern [of id "''-_.''"]
  by (simp add: normalize_eval)

section \<open>Properties of project-name resolution\<close>

lemma Dir_no_slash: "CHR ''/'' \<notin> set p \<Longrightarrow> Dir p = ''.''"
proof -
  assume "CHR ''/'' \<notin> set p"
  then have "dropWhile (\<lambda>c. c \<noteq> CHR ''/'') (rev p) = []" by auto
  then show ?thesis by (simp add: Dir_def Clean_def)
qed

text \<open>
  C5. \<open>GetProjectName\<close> returns the normalization of the first source that is present, in
  the order override, \<open>name\<close> field, \<open>COMPOSE_PROJECT_NAME\<close>, directory of the compose
  file. A source is present when it is not the empty string. The directory source is
  the base name of \<open>filepath.Dir\<close> of the path; when that directory is \<open>.\<close>, which is
  the case for every path without a separator, the base name of the working directory
  that \<open>os.Getwd\<close> returns is taken in place of \<open>.\<close>.
\<close>

theorem GetProjectName_priority:
  "(override \<noteq> [] \<longrightarrow>
      GetProjectName ul env getwd cf override = normalizeProjectName ul override)
   \<and> (override = [] \<and> Name cf \<noteq> [] \<longrightarrow>
      GetProjectName ul env getwd cf override = normalizeProjectName ul (Name cf))
   \<and> (override = [] \<and> Name cf = [] \<and> env ''COMPOSE_PROJECT_NAME'' = Some v \<and> v \<noteq> [] \<longrightarrow>
      GetProjectName ul env getwd cf override = normalizeProjectName ul v)
   \<and> (override = [] \<and> Name cf = [] \<and> Getenv env ''COMPOSE_PROJECT_NAME'' = []
        \<and> Dir (path cf) \<noteq> ''.'' \<longrightarrow>
      GetProjectName ul env getwd cf override = normalizeProjectName ul (Base (Dir (path cf))))
   \<and> (override = [] \<and> Name cf = [] \<and> Getenv env ''COMPOSE_PROJECT_NAME'' = []
        \<and> Dir (path cf) = ''.'' \<and> getwd = Inr cwd \<longrightarrow>
      GetProjectName ul env getwd cf override = normalizeProjectName ul (Base cwd))
   \<and> (CHR ''/'' \<notin> set (path cf) \<longrightarrow> Dir (path cf) = ''.'')"
  by (simp add: GetProjectName_def Getenv_def Dir_no_slash)

theorem GetProjectName_priority_witness:
  "GetProjectName id [''COMPOSE_PROJECT_NAME'' \<mapsto> ''envName''] (Inr ''/home/u/CapsProject'')
     \<lparr>Name = ''FromFile'', Services = [], path = ''/tmp/PriorityProject/compose.yaml''\<rparr>
     ''OverrideName'' = ''overridename''
   \<and> GetProjectName id [''COMPOSE_PROJECT_NAME'' \<mapsto> ''envName''] (Inr ''/home/u/CapsProject'')
     \<lparr>Name = ''FromFile'', Services = [], path = ''/tmp/PriorityProject/compose.yaml''\<rparr>
     [] = ''fromfile''
   \<and> GetProjectName id [''COMPOSE_PROJECT_NAME'' \<mapsto> ''EnvName''] (Inr ''/home/u/CapsProject'')
     \<lparr>Name = [], Services = [], path = ''/tmp/PriorityProject/compose.yaml''\<rparr>
     [] = ''envname''
   \<and> GetProjectName id Map.empty (Inr ''/home/u/CapsProject'')
     \<lparr>Name = [], Services = [], path = ''/tmp/PriorityProject/compose.yaml''\<rparr>
     [] = ''priorityproject''
   \<and> GetProjectName id [''COMPOSE_PROJECT_NAME'' \<mapsto> []] (Inr ''/home/u/CapsProject'')
     \<lparr>Name = [], Services = [], path = ''compose.yaml''\<rparr>
     [] = ''capsproject''"
proof -
  let ?cfa = "\<lparr>Name = ''FromFile'', Services = [], path = ''/tmp/PriorityProject/compose.yaml''\<rparr>"
  let ?cfb = "\<lparr>Name = [], Services = [], path = ''/tmp/PriorityProject/compose.yaml''\<rparr>"
  let ?cfc = "\<lparr>Name = [], Services = [], path = ''compose.yaml''\<rparr>"
  have d: "Dir ''/tmp/PriorityProject/compose.yaml'' = ''/tmp/PriorityProject''"
    by (simp add: Dir_def Clean_def)
  have d1: "Dir ''compose.yaml'' = ''.''"
    by (simp add: Dir_def Clean_def)
  have b: "Base ''/tmp/PriorityProject'' = ''PriorityProject''"
    "Base ''/home/u/CapsProject'' = ''CapsProject''"
    by (simp_all add: Base_def)
  have "GetProjectName id [''COMPOSE_PROJECT_NAME'' \<mapsto> ''envName''] (Inr ''/home/u/CapsProject'')
          ?cfa ''OverrideName'' = ''overridename''"
    using GetProjectName_priority
      [of "''OverrideName''" id "[''COMPOSE_PROJECT_NAME'' \<mapsto> ''envName'']"
        "Inr ''/home/u/CapsProject''" ?cfa "''envName''" "''/home/u/CapsProject''"]
    by (simp add: normalize_eval)
  moreover have "GetProjectName id [''COMPOSE_PROJECT_NAME'' \<mapsto> ''envName'']
          (Inr ''/home/u/CapsProject'') ?cfa [] = ''fromfile''"
    using GetProjectName_priority
      [of "[]" id "[''COMPOSE_PROJECT_NAME'' \<mapsto> ''envName'']"
        "Inr ''/home/u/CapsProject''" ?cfa "''envName''" "''/home/u/CapsProject''"]
    by (simp add: normalize_eval)
  moreover have "GetProjectName id [''COMPOSE_PROJECT_NAME'' \<mapsto> ''EnvName'']
          (Inr ''/home/u/CapsProject'') ?cfb [] = ''envname''"
    using GetProjectName_priority
      [of "[]" id "[''COMPOSE_PROJECT_NAME'' \<mapsto> ''EnvName'']"
        "Inr ''/home/u/CapsProject''" ?cfb "''EnvName''" "''/home/u/CapsProject''"]
    by (simp add: normalize_eval)
  moreover have "GetProjectName id Map.empty (Inr ''/home/u/CapsProject'') ?cfb []
          = ''priorityproject''"
    using GetProjectName_priority
      [of "[]" id Map.empty "Inr ''/home/u/CapsProject''" ?cfb "[]" "''/home/u/CapsProject''"]
    by (simp add: d b Getenv_def normalize_eval)
  moreover have "GetProjectName id [''COMPOSE_PROJECT_NAME'' \<mapsto> []]
          (Inr ''/home/u/CapsProject'') ?cfc [] = ''capsproject''"
    using GetProjectName_priority
      [of "[]" id "[''COMPOSE_PROJECT_NAME'' \<mapsto> []]" "Inr ''/home/u/CapsProject''" ?cfc
        "[]" "''/home/u/CapsProject''"]
    by (simp add: d1 b Getenv_def normalize_eval)
  ultimately show ?thesis by blast
qed

section \<open>Loading a compose file\<close>

text \<open>
  C2. \<open>LoadComposeFile\<close> hands the bytes it read to the YAML decoder as they are: the
  result is the decoder's result on the raw text, with the path filled in, and the
  process environment is not consulted. The instance is the \<open>name\<close> line of the
  file of \<open>TestLoadComposeFileExpandsEnvVars\<close>: the \<open>name\<close> field keeps the text
  \<open>${TEST_COMPOSE_NAME:-my-project}\<close>, and the project name derived from it is
  \<open>test_compose_name-my-project\<close>, where the test expects \<open>my-project\<close>.
\<close>

theorem LoadComposeFile_passes_raw_text:
  "readFile p = Inr content \<Longrightarrow> unmarshal content = Inr cf
   \<Longrightarrow> LoadComposeFile readFile unmarshal p = Inr (cf\<lparr>path := p\<rparr>)"
  by (simp add: LoadComposeFile_def)

theorem LoadComposeFile_passes_raw_text_witness:
  "LoadComposeFile
     (\<lambda>p. Inr ''name: ${TEST_COMPOSE_NAME:-my-project} services: {web: {image: nginx}}'')
     (\<lambda>data. if data = ''name: ${TEST_COMPOSE_NAME:-my-project} services: {web: {image: nginx}}''
             then Inr \<lparr>Name = ''${TEST_COMPOSE_NAME:-my-project}'',
                       Services = [(''web'', \<lparr>Image = ''nginx'', Volumes = []\<rparr>)], path = []\<rparr>
             else Inl (ErrNew ''yaml: unexpected input''))
     ''/tmp/t/compose.yaml''
   = Inr \<lparr>Name = ''${TEST_COMPOSE_NAME:-my-project}'',
          Services = [(''web'', \<lparr>Image = ''nginx'', Volumes = []\<rparr>)],
          path = ''/tmp/t/compose.yaml''\<rparr>
   \<and> GetProjectName id Map.empty (Inr ''/tmp/t'')
       \<lparr>Name = ''${TEST_COMPOSE_NAME:-my-project}'',
        Services = [(''web'', \<lparr>Image = ''nginx'', Volumes = []\<rparr>)],
        path = ''/tmp/t/compose.yaml''\<rparr> []
     = ''test_compose_name-my-project''"
proof -
  let ?content = "''name: ${TEST_COMPOSE_NAME:-my-project} services: {web: {image: nginx}}''"
  let ?decoded = "\<lparr>Name = ''${TEST_COMPOSE_NAME:-my-project}'',
                       Services = [(''web'', \<lparr>Image = ''nginx'', Volumes = []\<rparr>)], path = []\<rparr>"
  have "LoadComposeFile (\<lambda>p. Inr ?content)
          (\<lambda>data. if data = ?content then Inr ?decoded else Inl (ErrNew ''yaml: unexpected input''))
          ''/tmp/t/compose.yaml''
        = Inr (?decoded\<lparr>path := ''/tmp/t/compose.yaml''\<rparr>)"
    by (rule LoadComposeFile_passes_raw_text [where content = ?content]) simp_all
  then show ?thesis
    by (simp add: GetProjectName_def normalize_eval)
qed

section \<open>Clean: the staleness test\<close>

lemma shouldClean_without_unused: "\<not> Unused opts \<Longrightarrow> \<not> shouldClean iu gm opts v"
  by (auto simp: shouldClean_def Sub_def wholeDays_def Let_def split: sum.splits)

text \<open>
  C1. The filter loop of \<open>Clean\<close> computes the age as
  \<open>meta.LastAccessed.Sub(meta.LastAccessed)\<close>, which is always zero, so the test
  \<open>daysSince >= opts.Stale\<close> fails for every threshold above zero. The volume below was
  last accessed 100 days before \<open>now\<close> (day 2000 against day 2100, in nanoseconds);
  with a threshold of 30 days and \<open>Unused\<close> off it is stale in the sense of the claim,
  and the loop selects nothing.
\<close>

theorem Clean_stale_volume_not_selected:
  "staleByAge (2100 * 86400000000000) 30 (2000 * 86400000000000)
   \<and> volumesToClean (\<lambda>n. Inr False)
       (\<lambda>n. Inr \<lparr>mdVolumeName = n, LastAccessed = 2000 * 86400000000000, LastBackup = 0,
                  BackupCount = 0\<rparr>)
       \<lparr>Unused = False, Stale = 30, DryRun = False, Archive = False, Force = False\<rparr>
       [''proj_data'']
     = []"
  by (simp add: staleByAge_def volumesToClean_def shouldClean_def Sub_def wholeDays_def
      IsZero_def)

section \<open>Clone: the target volume name\<close>

text \<open>
  C10. With project \<open>myproject\<close> and the new name \<open>db2\<close>, shorter than the project
  name, the slice \<open>targetVolume[:len(c.ProjectName)]\<close> is out of range and \<open>Clone\<close>
  panics. With project \<open>p\<close> and the new name \<open>p_copy\<close>, which already starts with
  \<open>p_\<close>, the slice has the length of \<open>p\<close> and never equals \<open>p_\<close>, so the prefix is
  added again.
\<close>

theorem Clone_targetVolume_panics_and_doubles_prefix:
  "Clone_targetVolume
     \<lparr>ctxConfig = DefaultConfig ''/root'', Compose = None, ProjectName = ''myproject'',
      Verbose = False, Quiet = False\<rparr>
     (\<lambda>v. v = ''myproject_db'') \<lparr>cloneService = ''myproject_db'', NewName = ''db2''\<rparr>
   = Inl Panicked
   \<and> Clone_targetVolume
     \<lparr>ctxConfig = DefaultConfig ''/root'', Compose = None, ProjectName = ''p'',
      Verbose = False, Quiet = False\<rparr>
     (\<lambda>v. v = ''p_db'') \<lparr>cloneService = ''p_db'', NewName = ''p_copy''\<rparr>
   = Inr ''p_p_copy''"
  by (simp add: Clone_targetVolume_def ResolveVolumeName_def)

section \<open>Named volumes of a service\<close>

lemma namedSource_iff: "namedSource src = (\<not> beginsWithPathMarker src)"
  by (cases src) (auto simp: namedSource_def HasPrefix_def beginsWithPathMarker_def)

lemma Split_nonempty: "Split v sep \<noteq> []"
  by (induction v) (auto split: list.splits)

lemma volSpecMapping_eq: "volSpecMapping svc spec = namedVolumeOf svc spec"
proof (cases spec)
  case (YString v)
  show ?thesis
  proof (cases "Split v (CHR '':'')")
    case Nil
    then show ?thesis using Split_nonempty by blast
  next
    case (Cons a as)
    then show ?thesis using YString
      by (cases as)
         (auto simp: volSpecMapping_def namedVolumeOf_def isNamedVolumeSpec_def
            specSourceTarget_def specType_def namedSource_iff Let_def)
  qed
next
  case (YMap m)
  then show ?thesis
    by (auto simp: volSpecMapping_def namedVolumeOf_def isNamedVolumeSpec_def
          specSourceTarget_def specType_def namedSource_iff
        split: option.splits yaml.splits)
next
  case YOther
  then show ?thesis
    by (simp add: volSpecMapping_def namedVolumeOf_def isNamedVolumeSpec_def
        specSourceTarget_def)
qed

lemma namedVolumeOf_name:
  "namedVolumeOf svc spec = Some m \<Longrightarrow> \<not> beginsWithPathMarker (vmVolumeName m)"
  by (auto simp: namedVolumeOf_def isNamedVolumeSpec_def split: if_splits option.splits)

lemma namedVolumeOf_sources:
  "map (\<lambda>m. (vmVolumeName m, vmMountPath m)) (List.map_filter (namedVolumeOf svc) vs)
   = List.map_filter specSourceTarget (filter isNamedVolumeSpec vs)"
proof (induction vs)
  case Nil
  then show ?case by (simp add: List.map_filter_simps)
next
  case (Cons v vs)
  then show ?case
    by (cases "specSourceTarget v")
       (auto simp: List.map_filter_simps namedVolumeOf_def isNamedVolumeSpec_def)
qed

text \<open>
  C7. For a service of the compose file, \<open>GetVolumeMapping\<close> returns, in declaration
  order, the source and target of exactly the entries that the specification classifies
  as named volumes: the source does not begin with \<open>/\<close>, \<open>.\<close> or \<open>~\<close>, and a
  long-form entry (string source and target, both non-empty) that gives a type gives
  \<open>volume\<close>. No returned volume name begins with one of the three markers. The type of
  a long-form entry is its \<open>type\<close> field when that is a string; the code and
  \<open>specType\<close> alike take a \<open>type\<close> field of another YAML kind as no type given.
\<close>

theorem GetVolumeMapping_named_volumes:
  assumes "map_of (Services cf) serviceName = Some service"
  shows "GetVolumeMapping cf serviceName
           = Inr (List.map_filter (namedVolumeOf serviceName) (Volumes service))
         \<and> map (\<lambda>m. (vmVolumeName m, vmMountPath m))
               (List.map_filter (namedVolumeOf serviceName) (Volumes service))
           = List.map_filter specSourceTarget (filter isNamedVolumeSpec (Volumes service))
         \<and> list_all (\<lambda>m. \<not> beginsWithPathMarker (vmVolumeName m))
               (List.map_filter (namedVolumeOf serviceName) (Volumes service))"
proof -
  have eq: "volSpecMapping serviceName = namedVolumeOf serviceName"
    by (rule ext) (rule volSpecMapping_eq)
  have 1: "GetVolumeMapping cf serviceName
           = Inr (List.map_filter (namedVolumeOf serviceName) (Volumes service))"
    using assms by (simp add: GetVolumeMapping_def eq)
  have 2: "list_all (\<lambda>m. \<not> beginsWithPathMarker (vmVolumeName m))
               (List.map_filter (namedVolumeOf serviceName) (Volumes service))"
    by (auto simp: list_all_iff List.map_filter_def dest: namedVolumeOf_name)
  from 1 2 namedVolumeOf_sources show ?thesis by blast
qed

theorem GetVolumeMapping_named_volumes_witness:
  "GetVolumeMapping \<lparr>Name = ''p'', Services = [(''db'', \<lparr>Image = ''postgres'', Volumes =
     [YString ''/abs:/a'', YString ''./rel:/b'', YString ''~/home:/c'', YString ''data:/d:ro'',
      YString ''nocolon'',
      YMap [(''type'', YString ''volume''), (''source'', YString ''vol2''), (''target'', YString ''/e'')],
      YMap [(''type'', YString ''bind''), (''source'', YString ''vol3''), (''target'', YString ''/f'')],
      YMap [(''source'', YString ''vol4''), (''target'', YString ''/g'')],
      YMap [(''source'', YString ''/srv''), (''target'', YString ''/h'')],
      YMap [(''type'', YOther), (''source'', YString ''vol5''), (''target'', YString ''/i'')],
      YOther]\<rparr>)], path = ''compose.yaml''\<rparr> ''db''
   = Inr [\<lparr>vmVolumeName = ''data'', vmMountPath = ''/d'', vmService = ''db''\<rparr>,
          \<lparr>vmVolumeName = ''vol2'', vmMountPath = ''/e'', vmService = ''db''\<rparr>,
          \<lparr>vmVolumeName = ''vol4'', vmMountPath = ''/g'', vmService = ''db''\<rparr>,
          \<lparr>vmVolumeName = ''vol5'', vmMountPath = ''/i'', vmService = ''db''\<rparr>]"
proof -
  let ?vs = "[YString ''/abs:/a'', YString ''./rel:/b'', YString ''~/home:/c'', YString ''data:/d:ro'',
      YString ''nocolon'',
      YMap [(''type'', YString ''volume''), (''source'', YString ''vol2''), (''target'', YString ''/e'')],
      YMap [(''type'', YString ''bind''), (''source'', YString ''vol3''), (''target'', YString ''/f'')],
      YMap [(''source'', YString ''vol4''), (''target'', YString ''/g'')],
      YMap [(''source'', YString ''/srv''), (''target'', YString ''/h'')],
      YMap [(''type'', YOther), (''source'', YString ''vol5''), (''target'', YString ''/i'')],
      YOther]"
  let ?svc = "\<lparr>Image = ''postgres'', Volumes = ?vs\<rparr>"
  let ?cf = "\<lparr>Name = ''p'', Services = [(''db'', ?svc)], path = ''compose.yaml''\<rparr>"
  have m: "map_of (Services ?cf) ''db'' = Some ?svc" by simp
  have "List.map_filter (namedVolumeOf ''db'') ?vs
        = [\<lparr>vmVolumeName = ''data'', vmMountPath = ''/d'', vmService = ''db''\<rparr>,
          \<lparr>vmVolumeName = ''vol2'', vmMountPath = ''/e'', vmService = ''db''\<rparr>,
          \<lparr>vmVolumeName = ''vol4'', vmMountPath = ''/g'', vmService = ''db''\<rparr>,
          \<lparr>vmVolumeName = ''vol5'', vmMountPath = ''/i'', vmService = ''db''\<rparr>]"
    by (simp add: List.map_filter_simps namedVolumeOf_def isNamedVolumeSpec_def
        specSourceTarget_def specType_def beginsWithPathMarker_def)
  with GetVolumeMapping_named_volumes [OF m] show ?thesis by simp
qed

section \<open>Restore: the latest backup file\<close>

lemma latestLoop_cases:
  assumes "[] \<notin> set ms"
  shows "latestLoop Stat ms latest lt = latest \<and> (\<forall>m\<in>set ms. \<forall>t. Stat m = Inr t \<longrightarrow> latest \<noteq> [] \<and> t \<le> lt)
       \<or> (\<exists>t. latestLoop Stat ms latest lt \<in> set ms \<and> Stat (latestLoop Stat ms latest lt) = Inr t
              \<and> (latest \<noteq> [] \<longrightarrow> lt < t)
              \<and> (\<forall>m\<in>set ms. \<forall>t'. Stat m = Inr t' \<longrightarrow> t' \<le> t))"
  using assms
proof (induction ms arbitrary: latest lt)
  case Nil
  then show ?case by simp
next
  case (Cons m ms)
  then have ne: "m \<noteq> []" and rest: "[] \<notin> set ms" by auto
  show ?case
  proof (cases "Stat m")
    case (Inl err)
    with Cons.IH[OF rest, of latest lt] show ?thesis by auto
  next
    case (Inr mt)
    show ?thesis
    proof (cases "latest = [] \<or> mt > lt")
      case True
      with Inr Cons.IH[OF rest, of m mt] ne show ?thesis by (auto; force)
    next
      case False
      with Inr Cons.IH[OF rest, of latest lt] show ?thesis by (auto; force)
    qed
  qed
qed


lemma latestLoop_newest:
  assumes "[] \<notin> set ms" and "latestLoop Stat ms [] 0 = f" and "f \<noteq> []"
  shows "f \<in> set ms \<and> (\<exists>t. Stat f = Inr t \<and> (\<forall>m\<in>set ms. \<forall>t'. Stat m = Inr t' \<longrightarrow> t' \<le> t))"
  using latestLoop_cases[OF assms(1), of Stat "[]" 0] assms(2,3) by auto

lemma latestLoop_found:
  assumes "[] \<notin> set ms" and "m \<in> set ms" and "Stat m = Inr t"
  shows "latestLoop Stat ms [] 0 \<noteq> []"
  using latestLoop_cases[OF assms(1), of Stat "[]" 0] assms by auto

lemma FindBackupFile_searched:
  "FindBackupFile Glob Stat dir name = Inr f \<Longrightarrow>
   f = latestLoop Stat (searchedMatches Glob dir name) [] 0 \<and> f \<noteq> []"
  by (auto simp: FindBackupFile_def searchedMatches_def Let_def
      split: sum.splits if_splits)

lemma FindBackupFile_total:
  "searchedMatches Glob dir name \<noteq> [] \<Longrightarrow>
   latestLoop Stat (searchedMatches Glob dir name) [] 0 \<noteq> [] \<Longrightarrow>
   FindBackupFile Glob Stat dir name
     = Inr (latestLoop Stat (searchedMatches Glob dir name) [] 0)"
  by (auto simp: FindBackupFile_def searchedMatches_def Let_def
      split: sum.splits if_splits)

text \<open>
  What the loop of \<open>FindBackupFile\<close> does with the matches it is given: a file it
  returns is one of \<open>searchedMatches\<close>, its modification time can be read, and none of
  \<open>searchedMatches\<close> has a later one; a file is returned whenever the modification time
  of at least one of them can be read. (\<open>Glob\<close> never yields an empty path.)
\<close>

lemma FindBackupFile_newest_of_searched:
  assumes "[] \<notin> set (searchedMatches Glob dir name)"
  shows "(FindBackupFile Glob Stat dir name = Inr f \<longrightarrow>
            f \<in> set (searchedMatches Glob dir name)
            \<and> (\<exists>t. Stat f = Inr t
                 \<and> (\<forall>m\<in>set (searchedMatches Glob dir name). \<forall>t'. Stat m = Inr t' \<longrightarrow> t' \<le> t)))
         \<and> (m \<in> set (searchedMatches Glob dir name) \<and> Stat m = Inr tm \<longrightarrow>
            (\<exists>g. FindBackupFile Glob Stat dir name = Inr g))"
proof (intro conjI impI)
  assume r: "FindBackupFile Glob Stat dir name = Inr f"
  from FindBackupFile_searched[OF r]
  have f: "latestLoop Stat (searchedMatches Glob dir name) [] 0 = f" and ne: "f \<noteq> []"
    by blast+
  from latestLoop_newest[OF assms f ne]
  show "f \<in> set (searchedMatches Glob dir name)"
    and "\<exists>t. Stat f = Inr t
          \<and> (\<forall>m\<in>set (searchedMatches Glob dir name). \<forall>t'. Stat m = Inr t' \<longrightarrow> t' \<le> t)"
    by simp_all
next
  assume a: "m \<in> set (searchedMatches Glob dir name) \<and> Stat m = Inr tm"
  then have ne: "searchedMatches Glob dir name \<noteq> []" by auto
  from a latestLoop_found[OF assms, of m Stat tm]
  have "latestLoop Stat (searchedMatches Glob dir name) [] 0 \<noteq> []" by simp
  with FindBackupFile_total[OF ne] show "\<exists>g. FindBackupFile Glob Stat dir name = Inr g"
    by simp
qed

lemma FindBackupFile_newest_of_searched_example:
  "let G = (\<lambda>p. if p = ''/backups/p/db_*.tar.gz''
                 then Inr [''/backups/p/db_2024-01-01_000000.tar.gz'',
                           ''/backups/p/db_2024-03-01_000000.tar.gz'']
                 else if p = ''/backups/p/db_*.tar.zst''
                 then Inr [''/backups/p/db_2024-05-01_000000.tar.zst'']
                 else Inr []);
       S = (\<lambda>f. if f = ''/backups/p/db_2024-01-01_000000.tar.gz'' then Inr 100
                 else if f = ''/backups/p/db_2024-03-01_000000.tar.gz'' then Inr 300
                 else if f = ''/backups/p/db_2024-05-01_000000.tar.zst'' then Inr 500
                 else Inl (ErrNew ''no such file''))
   in [] \<notin> set (searchedMatches G ''/backups/p'' ''db'')
      \<and> FindBackupFile G S ''/backups/p'' ''db'' = Inr ''/backups/p/db_2024-03-01_000000.tar.gz''
      \<and> ''/backups/p/db_2024-03-01_000000.tar.gz'' \<in> set (searchedMatches G ''/backups/p'' ''db'')
      \<and> S ''/backups/p/db_2024-03-01_000000.tar.gz'' = Inr 300
      \<and> searchedMatches G ''/backups/p'' ''db''
          = [''/backups/p/db_2024-01-01_000000.tar.gz'', ''/backups/p/db_2024-03-01_000000.tar.gz'']"
proof -
  let ?G = "\<lambda>p. if p = ''/backups/p/db_*.tar.gz''
                 then Inr [''/backups/p/db_2024-01-01_000000.tar.gz'',
                           ''/backups/p/db_2024-03-01_000000.tar.gz'']
                 else if p = ''/backups/p/db_*.tar.zst''
                 then Inr [''/backups/p/db_2024-05-01_000000.tar.zst'']
                 else (Inr [] :: error + string list)"
  let ?S = "\<lambda>f. if f = ''/backups/p/db_2024-01-01_000000.tar.gz'' then Inr 100
                 else if f = ''/backups/p/db_2024-03-01_000000.tar.gz'' then Inr 300
                 else if f = ''/backups/p/db_2024-05-01_000000.tar.zst'' then Inr 500
                 else (Inl (ErrNew ''no such file'') :: error + time)"
  have j: "Join [''/backups/p'', ''db_*.tar.gz''] = ''/backups/p/db_*.tar.gz''"
    by (simp add: Join_def Clean_def)
  have sm: "searchedMatches ?G ''/backups/p'' ''db''
          = [''/backups/p/db_2024-01-01_000000.tar.gz'', ''/backups/p/db_2024-03-01_000000.tar.gz'']"
    by (simp add: searchedMatches_def j)
  have ne: "[] \<notin> set (searchedMatches ?G ''/backups/p'' ''db'')"
    by (simp add: sm)
  have r: "FindBackupFile ?G ?S ''/backups/p'' ''db''
          = Inr ''/backups/p/db_2024-03-01_000000.tar.gz''"
    by (simp add: FindBackupFile_def j)
  from FindBackupFile_newest_of_searched
    [OF ne, of ?S "''/backups/p/db_2024-03-01_000000.tar.gz''"
       "''/backups/p/db_2024-03-01_000000.tar.gz''" 300] r
  have "''/backups/p/db_2024-03-01_000000.tar.gz''
          \<in> set (searchedMatches ?G ''/backups/p'' ''db'')"
    by blast
  with sm ne r show ?thesis by (simp add: Let_def)
qed

text \<open>
  C9. Without \<open>List\<close> and \<open>Select\<close>, \<open>restoreService\<close> restores the file that
  \<open>FindBackupFile\<close> returns for the name prefix it computes. The doc comment of
  \<open>FindBackupFile\<close> says that it finds the latest backup file, and \<open>ListBackupFiles\<close>
  beside it collects the files of both extensions; but \<open>FindBackupFile\<close> looks for
  \<open>.tar.zst\<close> files only when no \<open>.tar.gz\<close> file matches. So the claim does not hold
  for the code: below, the backup directory of project \<open>p\<close> holds two \<open>.tar.gz\<close>
  backups of the volume \<open>p_data\<close> and a newer \<open>.tar.zst\<close> backup of it, all three
  matching the prefix \<open>p_data_\<close>, and the restore of \<open>p_data\<close> takes the \<open>.tar.gz\<close>
  file of modification time 300, not the \<open>.tar.zst\<close> file of modification time 500.
\<close>

theorem restoreService_latest_misses_newer_tar_zst:
  "let c = \<lparr>ctxConfig = DefaultConfig ''/root'', Compose = None, ProjectName = ''p'',
            Verbose = False, Quiet = True\<rparr>;
       G = (\<lambda>p. if p = ''/root/.dvm/backups/p/p_data_*.tar.gz''
                 then Inr [''/root/.dvm/backups/p/p_data_2024-01-01_000000.tar.gz'',
                           ''/root/.dvm/backups/p/p_data_2024-03-01_000000.tar.gz'']
                 else if p = ''/root/.dvm/backups/p/p_data_*.tar.zst''
                 then Inr [''/root/.dvm/backups/p/p_data_2024-05-01_000000.tar.zst'']
                 else Inr []);
       S = (\<lambda>f. if f = ''/root/.dvm/backups/p/p_data_2024-01-01_000000.tar.gz'' then Inr 100
                 else if f = ''/root/.dvm/backups/p/p_data_2024-03-01_000000.tar.gz'' then Inr 300
                 else if f = ''/root/.dvm/backups/p/p_data_2024-05-01_000000.tar.zst'' then Inr 500
                 else Inl (ErrNew ''no such file''))
   in restoreService_latest c (\<lambda>v. v = ''p_data'') G S ''p_data''
        = Inr (''/root/.dvm/backups/p/p_data_2024-03-01_000000.tar.gz'', ''p_data'')
      \<and> FindBackupFile G S ''/root/.dvm/backups/p'' ''p_data''
        = Inr ''/root/.dvm/backups/p/p_data_2024-03-01_000000.tar.gz''
      \<and> allBackupMatches G ''/root/.dvm/backups/p'' ''p_data''
        = [''/root/.dvm/backups/p/p_data_2024-01-01_000000.tar.gz'',
           ''/root/.dvm/backups/p/p_data_2024-03-01_000000.tar.gz'',
           ''/root/.dvm/backups/p/p_data_2024-05-01_000000.tar.zst'']
      \<and> S ''/root/.dvm/backups/p/p_data_2024-03-01_000000.tar.gz'' = Inr (300 :: time)
      \<and> S ''/root/.dvm/backups/p/p_data_2024-05-01_000000.tar.zst'' = Inr (500 :: time)"
  by code_simp

section \<open>Swap: restart on error\<close>

lemma endsWith_append: "endsWith (pre @ suffix) suffix"
  by (simp add: endsWith_def)

lemma restartOnError_stopped:
  assumes "containers \<noteq> []"
  shows "endsWith (fst (restartOnError e v True containers (tr @ [failing]) primary))
           [failing, RestartContainersUsingVolume v]
         \<and> surfaces (snd (restartOnError e v True containers (tr @ [failing]) primary))
             primary (seRestartContainers e)"
proof -
  have "endsWith (tr @ [failing, RestartContainersUsingVolume v])
          [failing, RestartContainersUsingVolume v]"
    by (rule endsWith_append)
  then show ?thesis using assms
    by (cases "seRestartContainers e") (simp_all add: restartOnError_def surfaces_def)
qed

lemma Swap_reaches_replace:
  assumes "swService opts \<noteq> []"
    and "ResolveVolumeName c (seVolumeExists e) (swService opts) = Inr v"
    and "seVolumeExists e v"
    and "swNoBackup opts \<or> (seEnsureDirectory e = None \<and> seBackupVolume e = None)"
    and "seGetContainersUsingVolume e = Inr cs"
    and "cs \<noteq> []"
    and "seStopContainers e = None"
  shows "\<exists>tr. Swap c e opts = Swap_replace e opts v True cs (tr @ [StopContainersUsingVolume v])"
proof (cases "swNoBackup opts")
  case True
  with assms have "Swap c e opts
      = Swap_replace e opts v True cs ([] @ [StopContainersUsingVolume v])"
    by (simp add: Swap_def Let_def)
  then show ?thesis by blast
next
  case False
  with assms have "Swap c e opts
      = Swap_replace e opts v True cs
          ([BackupVolume v
             (Join [Join [Backups (cfgPaths (ctxConfig c)), ProjectName c],
                    GenerateBackupFilename (seTimestamp e)
                      ((let s = GetServiceName c v in if s = [] then swService opts else s)
                         @ ''_swap_backup'')
                      (CompressFormat (cfgDefaults (ctxConfig c)))]) True]
           @ [StopContainersUsingVolume v])"
    by (simp add: Swap_def Let_def)
  then show ?thesis by blast
qed

text \<open>
  C4. Take a run of \<open>Swap\<close> that gets as far as stopping the containers: the service
  resolves to an existing volume, the optional backup succeeds, at least one container
  uses the volume and stopping succeeds. If removing the volume, creating it, or
  restoring into it from the source archive then fails, the last engine call of the run is
  the restart of the containers, made right after the failing call, and the error
  returned is the primary failure: unchanged when the restart succeeds, and wrapped
  (still reachable through \<open>Unwrap\<close>, its message first) together with the restart
  failure when the restart fails.
\<close>

theorem Swap_restarts_and_keeps_primary_error:
  assumes "swService opts \<noteq> []"
    and "ResolveVolumeName c (seVolumeExists e) (swService opts) = Inr v"
    and "seVolumeExists e v"
    and "swNoBackup opts \<or> (seEnsureDirectory e = None \<and> seBackupVolume e = None)"
    and "seGetContainersUsingVolume e = Inr cs"
    and "cs \<noteq> []"
    and "seStopContainers e = None"
  shows "(seRemoveVolume e = Some x \<longrightarrow>
            endsWith (fst (Swap c e opts)) [RemoveVolume v True, RestartContainersUsingVolume v]
            \<and> surfaces (snd (Swap c e opts)) (ErrWrap ''failed to remove volume: '' x [])
                (seRestartContainers e))
       \<and> (seRemoveVolume e = None \<and> seCreateVolume e = Some x \<longrightarrow>
            endsWith (fst (Swap c e opts)) [CreateVolume v, RestartContainersUsingVolume v]
            \<and> surfaces (snd (Swap c e opts)) (ErrWrap ''failed to create volume: '' x [])
                (seRestartContainers e))
       \<and> (seRemoveVolume e = None \<and> seCreateVolume e = None
            \<and> swSource opts \<noteq> [] \<and> \<not> swEmpty opts \<and> seRestoreVolume e = Some x \<longrightarrow>
            endsWith (fst (Swap c e opts))
              [RestoreVolume v (swSource opts), RestartContainersUsingVolume v]
            \<and> surfaces (snd (Swap c e opts)) (ErrWrap ''restore failed: '' x [])
                (seRestartContainers e))"
proof -
  from Swap_reaches_replace[OF assms] obtain tr where
    sw: "Swap c e opts = Swap_replace e opts v True cs (tr @ [StopContainersUsingVolume v])"
    by blast
  let ?t = "tr @ [StopContainersUsingVolume v]"
  have 1: "seRemoveVolume e = Some x \<Longrightarrow>
      Swap c e opts = restartOnError e v True cs (?t @ [RemoveVolume v True])
        (ErrWrap ''failed to remove volume: '' x [])"
    by (simp add: sw Swap_replace_def)
  have 2: "seRemoveVolume e = None \<Longrightarrow> seCreateVolume e = Some x \<Longrightarrow>
      Swap c e opts = restartOnError e v True cs ((?t @ [RemoveVolume v True]) @ [CreateVolume v])
        (ErrWrap ''failed to create volume: '' x [])"
    by (simp add: sw Swap_replace_def)
  have 3: "seRemoveVolume e = None \<Longrightarrow> seCreateVolume e = None \<Longrightarrow>
      swSource opts \<noteq> [] \<Longrightarrow> \<not> swEmpty opts \<Longrightarrow> seRestoreVolume e = Some x \<Longrightarrow>
      Swap c e opts = restartOnError e v True cs
        ((?t @ [RemoveVolume v True, CreateVolume v]) @ [RestoreVolume v (swSource opts)])
        (ErrWrap ''restore failed: '' x [])"
    by (simp add: sw Swap_replace_def)
  show ?thesis
    using 1 2 3 restartOnError_stopped[OF assms(6)] by metis
qed


theorem Swap_restarts_and_keeps_primary_error_witness:
  "Swap
     \<lparr>ctxConfig = DefaultConfig ''/root'',
      Compose = Some \<lparr>Name = ''proj'',
                       Services = [(''db'', \<lparr>Image = ''postgres'',
                                     Volumes = [YString ''data:/var/lib/postgresql/data'']\<rparr>)],
                       path = ''compose.yaml''\<rparr>,
      ProjectName = ''proj'', Verbose = False, Quiet = True\<rparr>
     \<lparr>seVolumeExists = (\<lambda>v. v = ''proj_data''), seEnsureDirectory = None,
      seTimestamp = ''2024-01-01_120000'', seBackupVolume = None, seAddBackupRecord = None,
      seGetContainersUsingVolume = Inr [''/proj-db-1''], seStopContainers = None,
      seRemoveVolume = None, seCreateVolume = Some (ErrNew ''no space left on device''),
      seRestoreVolume = None, seRestartContainers = Some (ErrNew ''container not found'')\<rparr>
     \<lparr>swEmpty = True, swNoBackup = False, swRestart = True, swService = ''db'', swSource = []\<rparr>
   = ([BackupVolume ''proj_data''
         ''/root/.dvm/backups/proj/db_swap_backup_2024-01-01_120000.tar.gz'' True,
       StopContainersUsingVolume ''proj_data'', RemoveVolume ''proj_data'' True,
       CreateVolume ''proj_data'', RestartContainersUsingVolume ''proj_data''],
      Some (ErrWrap []
              (ErrWrap ''failed to create volume: '' (ErrNew ''no space left on device'') [])
              '' (also failed to restart containers: container not found)''))
   \<and> surfaces
       (Some (ErrWrap []
              (ErrWrap ''failed to create volume: '' (ErrNew ''no space left on device'') [])
              '' (also failed to restart containers: container not found)''))
       (ErrWrap ''failed to create volume: '' (ErrNew ''no space left on device'') [])
       (Some (ErrNew ''container not found''))"
proof -
  let ?c = "\<lparr>ctxConfig = DefaultConfig ''/root'',
      Compose = Some \<lparr>Name = ''proj'',
                       Services = [(''db'', \<lparr>Image = ''postgres'',
                                     Volumes = [YString ''data:/var/lib/postgresql/data'']\<rparr>)],
                       path = ''compose.yaml''\<rparr>,
      ProjectName = ''proj'', Verbose = False, Quiet = True\<rparr>"
  let ?e = "\<lparr>seVolumeExists = (\<lambda>v. v = ''proj_data''), seEnsureDirectory = None,
      seTimestamp = ''2024-01-01_120000'', seBackupVolume = None, seAddBackupRecord = None,
      seGetContainersUsingVolume = Inr [''/proj-db-1''], seStopContainers = None,
      seRemoveVolume = None, seCreateVolume = Some (ErrNew ''no space left on device''),
      seRestoreVolume = None, seRestartContainers = Some (ErrNew ''container not found'')\<rparr>"
  let ?o = "\<lparr>swEmpty = True, swNoBackup = False, swRestart = True, swService = ''db'',
      swSource = []\<rparr>"
  have ev: "Swap ?c ?e ?o
     = ([BackupVolume ''proj_data''
         ''/root/.dvm/backups/proj/db_swap_backup_2024-01-01_120000.tar.gz'' True,
       StopContainersUsingVolume ''proj_data'', RemoveVolume ''proj_data'' True,
       CreateVolume ''proj_data'', RestartContainersUsingVolume ''proj_data''],
      Some (ErrWrap []
              (ErrWrap ''failed to create volume: '' (ErrNew ''no space left on device'') [])
              '' (also failed to restart containers: container not found)''))"
    by code_simp
  have h1: "swService ?o \<noteq> []" by simp
  have h2: "ResolveVolumeName ?c (seVolumeExists ?e) (swService ?o) = Inr ''proj_data''"
    by code_simp
  have h3: "seVolumeExists ?e ''proj_data''" by simp
  have h4: "swNoBackup ?o \<or> (seEnsureDirectory ?e = None \<and> seBackupVolume ?e = None)" by simp
  have h5: "seGetContainersUsingVolume ?e = Inr [''/proj-db-1'']" by simp
  have h6: "[''/proj-db-1''] \<noteq> []" by simp
  have h7: "seStopContainers ?e = None" by simp
  from Swap_restarts_and_keeps_primary_error
    [OF h1 h2 h3 h4 h5 h6 h7, of "ErrNew ''no space left on device''"]
  have "surfaces (snd (Swap ?c ?e ?o))
          (ErrWrap ''failed to create volume: '' (ErrNew ''no space left on device'') [])
          (seRestartContainers ?e)"
    by simp
  with ev show ?thesis by simp
qed

section \<open>Backup of all project volumes\<close>

















section \<open>Retention after a backup\<close>

lemma deleteLoop_ok:
  assumes "\<forall>i. anDeleteBackupRecord an i = None"
  shows "deleteLoop an st ds =
           (st\<lparr>backup_records := filter (\<lambda>r. brID r \<notin> brID ` set ds) (backup_records st)\<rparr>, None)"
  using assms
proof (induction ds arbitrary: st)
  case Nil
  show ?case by simp
next
  case (Cons d ds)
  have "filter (\<lambda>r. brID r \<notin> brID ` set ds) (filter (\<lambda>r. brID r \<noteq> brID d) (backup_records st))
        = filter (\<lambda>r. brID r \<notin> brID ` set (d # ds)) (backup_records st)"
    by (auto intro: filter_cong)
  with Cons show ?case by (simp add: DeleteBackupRecord_def)
qed

lemma removeFiles_ok:
  assumes "\<forall>p. anRemove an p = None"
  shows "removeFiles an fs ds = filter (\<lambda>p. p \<notin> brFilePath ` set ds) fs"
  using assms
proof (induction ds arbitrary: fs)
  case Nil
  show ?case by simp
next
  case (Cons d ds)
  have "filter (\<lambda>p. p \<notin> brFilePath ` set ds) (removeAll (brFilePath d) fs)
        = filter (\<lambda>p. p \<notin> brFilePath ` set (d # ds)) fs"
    by (auto simp add: removeAll_filter_not_eq intro: filter_cong)
  with Cons show ?case by simp
qed

lemma CleanupOldBackups_ok:
  assumes "anGetBackupRecords an = None" and "\<forall>i. anDeleteBackupRecord an i = None"
    and "0 < k"
  shows "CleanupOldBackups an st v k =
           (st\<lparr>backup_records :=
                 filter (\<lambda>r. brID r \<notin> brID ` set (drop (nat k) (anOrderBy an (ledgerOf st v))))
                   (backup_records st)\<rparr>,
            Inr (drop (nat k) (anOrderBy an (ledgerOf st v))))"
  using assms
  by (simp add: CleanupOldBackups_def GetBackupRecords_def ledgerOf_def deleteLoop_ok Let_def)

lemma retention_ok:
  assumes "anGetBackupRecords an = None" and "\<forall>i. anDeleteBackupRecord an i = None"
    and "\<forall>p. anRemove an p = None" and "0 < keepGenerationsOf c"
  shows "retention c an st v =
           st\<lparr>backup_records :=
                 filter (\<lambda>r. brID r \<notin> brID ` set (drop (nat (keepGenerationsOf c)) (anOrderBy an (ledgerOf st v))))
                   (backup_records st),
              files := filter (\<lambda>p. p \<notin> brFilePath ` set (drop (nat (keepGenerationsOf c)) (anOrderBy an (ledgerOf st v))))
                   (files st)\<rparr>"
  using assms
  by (simp add: retention_def CleanupOldBackups_ok removeFiles_ok Let_def)


lemma backupVolume_ok:
  assumes "succeeds an opts v"
  shows "backupVolume c an st v dir opts =
           (retention c an
              (st\<lparr>files := List.insert (archivePath c an opts dir v) (files st),
                  artifacts := artifacts st @ [(v, archivePath c an opts dir v)],
                  backup_records := backup_records st @ [newRecord c an st v dir opts],
                  next_id := Suc (next_id st),
                  volume_metadata :=
                    (volume_metadata st)
                      (v \<mapsto>
                         (case volume_metadata st v of
                            None \<Rightarrow> \<lparr>mdVolumeName = v, LastAccessed = 0,
                                     LastBackup = anNow an, BackupCount = 1\<rparr>
                          | Some m \<Rightarrow> m\<lparr>LastBackup := anNow an,
                                        BackupCount := BackupCount m + 1\<rparr>))\<rparr>) v, None)"
  using assms
  by (auto simp add: succeeds_def writesArchive_def backupVolume_def AddBackupRecord_def
      UpdateLastBackup_def newRecord_def Let_def split: if_splits)

lemma step_snd:
  assumes "succeeds an opts v"
  shows "snd (backupVolume c an st v dir opts) = None"
  using assms by (simp add: backupVolume_ok)

lemma step_records:
  assumes "succeeds an opts v" and "0 < keepGenerationsOf c"
  shows "backup_records (fst (backupVolume c an st v dir opts)) =
           filter (\<lambda>r. brID r \<notin> brID ` set (drop (nat (keepGenerationsOf c))
                      (anOrderBy an (ledgerOf st v @ [newRecord c an st v dir opts]))))
             (backup_records st @ [newRecord c an st v dir opts])"
proof -
  have s: "anGetBackupRecords an = None" "\<forall>i. anDeleteBackupRecord an i = None"
    "\<forall>p. anRemove an p = None"
    using assms(1) by (simp_all add: succeeds_def)
  show ?thesis
    by (simp add: backupVolume_ok[OF assms(1)] retention_ok[OF s assms(2)] ledgerOf_def
        newRecord_def)
qed

lemma step_files:
  assumes "succeeds an opts v" and "0 < keepGenerationsOf c"
  shows "files (fst (backupVolume c an st v dir opts)) =
           filter (\<lambda>p. p \<notin> brFilePath ` set (drop (nat (keepGenerationsOf c))
                      (anOrderBy an (ledgerOf st v @ [newRecord c an st v dir opts]))))
             (List.insert (archivePath c an opts dir v) (files st))"
proof -
  have s: "anGetBackupRecords an = None" "\<forall>i. anDeleteBackupRecord an i = None"
    "\<forall>p. anRemove an p = None"
    using assms(1) by (simp_all add: succeeds_def)
  show ?thesis
    by (simp add: backupVolume_ok[OF assms(1)] retention_ok[OF s assms(2)] ledgerOf_def
        newRecord_def)
qed

lemma step_next_id:
  assumes "succeeds an opts v" and "0 < keepGenerationsOf c"
  shows "next_id (fst (backupVolume c an st v dir opts)) = Suc (next_id st)"
proof -
  have s: "anGetBackupRecords an = None" "\<forall>i. anDeleteBackupRecord an i = None"
    "\<forall>p. anRemove an p = None"
    using assms(1) by (simp_all add: succeeds_def)
  show ?thesis
    by (simp add: backupVolume_ok[OF assms(1)] retention_ok[OF s assms(2)])
qed

lemma filter_by_key:
  assumes "distinct (map f xs)" and "set ds \<subseteq> set xs"
  shows "filter (\<lambda>r. f r \<notin> f ` set ds) xs = filter (\<lambda>r. r \<notin> set ds) xs"
proof (rule filter_cong[OF refl])
  fix x assume x: "x \<in> set xs"
  have inj: "inj_on f (set xs)" using assms(1) by (simp add: distinct_map)
  show "(f x \<notin> f ` set ds) = (x \<notin> set ds)"
    using inj x assms(2) by (auto dest: inj_onD)
qed

lemma filter_not_in_drop:
  assumes "distinct rs"
  shows "filter (\<lambda>r. r \<notin> set (drop n rs)) rs = take n rs"
proof -
  have d: "distinct (take n rs @ drop n rs)" using assms by simp
  hence disj: "set (take n rs) \<inter> set (drop n rs) = {}" by (simp only: distinct_append)
  have a: "filter (\<lambda>r. r \<notin> set (drop n rs)) (take n rs) = take n rs"
    using disj by (auto simp add: filter_id_conv)
  have b: "filter (\<lambda>r. r \<notin> set (drop n rs)) (drop n rs) = []"
    by (simp add: filter_empty_conv)
  have "filter (\<lambda>r. r \<notin> set (drop n rs)) rs
        = filter (\<lambda>r. r \<notin> set (drop n rs)) (take n rs @ drop n rs)"
    by (simp only: append_take_drop_id)
  also have "\<dots> = take n rs" by (simp only: filter_append a b append_Nil2)
  finally show ?thesis .
qed

lemma newestFirst_drop_take:
  assumes "newestFirst rs"
  shows "\<forall>d \<in> set (drop n rs). \<forall>k \<in> set (take n rs). brCreatedAt d \<le> brCreatedAt k"
proof -
  have "newestFirst (take n rs @ drop n rs)" using assms by simp
  thus ?thesis unfolding newestFirst_def sorted_wrt_append by blast
qed

lemma ledgerOK_snoc:
  assumes "ledgerOK st"
  shows "distinct (map brID (backup_records st @ [newRecord c an st v dir opts]))"
  using assms by (auto simp add: ledgerOK_def newRecord_def list_all_iff)


lemma ordered_perm:
  assumes "succeeds an opts v"
  shows "mset (anOrderBy an xs) = mset xs" and "newestFirst (anOrderBy an xs)"
  using assms by (simp_all add: succeeds_def ordersByCreatedAtDesc_def)

lemma ledger_snoc_distinct:
  assumes "ledgerOK st"
  shows "distinct (ledgerOf st v @ [newRecord c an st v dir opts])"
proof -
  have "distinct (backup_records st @ [newRecord c an st v dir opts])"
    using ledgerOK_snoc[OF assms] by (simp only: distinct_map)
  thus ?thesis by (auto simp add: ledgerOf_def)
qed

lemma ledger_snoc_subset:
  "set (ledgerOf st v @ [newRecord c an st v dir opts])
     \<subseteq> set (backup_records st @ [newRecord c an st v dir opts])"
  by (auto simp add: ledgerOf_def)

lemma step_records_mem:
  assumes "ledgerOK st" and "succeeds an opts v" and "0 < keepGenerationsOf c"
  shows "backup_records (fst (backupVolume c an st v dir opts)) =
           filter (\<lambda>r. r \<notin> set (drop (nat (keepGenerationsOf c))
                      (anOrderBy an (ledgerOf st v @ [newRecord c an st v dir opts]))))
             (backup_records st @ [newRecord c an st v dir opts])"
proof -
  let ?xs = "ledgerOf st v @ [newRecord c an st v dir opts]"
  let ?rs = "anOrderBy an ?xs"
  have "set ?rs = set ?xs" using ordered_perm(1)[OF assms(2)] by (rule mset_eq_setD)
  hence "set (drop (nat (keepGenerationsOf c)) ?rs) \<subseteq> set ?xs"
    using set_drop_subset by fastforce
  hence sub: "set (drop (nat (keepGenerationsOf c)) ?rs)
               \<subseteq> set (backup_records st @ [newRecord c an st v dir opts])"
    using ledger_snoc_subset by blast
  show ?thesis
    unfolding step_records[OF assms(2,3)]
    by (rule filter_by_key[OF ledgerOK_snoc[OF assms(1)] sub])
qed

lemma step_ledger:
  assumes "ledgerOK st" and "succeeds an opts v" and "0 < keepGenerationsOf c"
  shows "mset (ledgerOf (fst (backupVolume c an st v dir opts)) v) =
           mset (take (nat (keepGenerationsOf c))
                  (anOrderBy an (ledgerOf st v @ [newRecord c an st v dir opts])))"
proof -
  let ?new = "newRecord c an st v dir opts"
  let ?xs = "ledgerOf st v @ [?new]"
  let ?rs = "anOrderBy an ?xs"
  let ?ds = "drop (nat (keepGenerationsOf c)) ?rs"
  have perm: "mset ?rs = mset ?xs" by (rule ordered_perm(1)[OF assms(2)])
  have "distinct ?xs" by (rule ledger_snoc_distinct[OF assms(1)])
  hence drs: "distinct ?rs" using perm mset_eq_imp_distinct_iff by blast
  have vol: "brVolumeName ?new = v" by (simp add: newRecord_def)
  have "ledgerOf (fst (backupVolume c an st v dir opts)) v
        = filter (\<lambda>r. r \<notin> set ?ds) (filter (\<lambda>r. brVolumeName r = v) (backup_records st @ [?new]))"
    unfolding ledgerOf_def step_records_mem[OF assms] filter_filter
    by (rule filter_cong) auto
  also have "filter (\<lambda>r. brVolumeName r = v) (backup_records st @ [?new]) = ?xs"
    using vol by (simp add: ledgerOf_def)
  finally have "mset (ledgerOf (fst (backupVolume c an st v dir opts)) v)
                = filter_mset (\<lambda>r. r \<notin> set ?ds) (mset ?xs)" by simp
  also have "\<dots> = mset (filter (\<lambda>r. r \<notin> set ?ds) ?rs)" by (simp only: perm[symmetric] mset_filter)
  also have "\<dots> = mset (take (nat (keepGenerationsOf c)) ?rs)"
    by (simp only: filter_not_in_drop[OF drs])
  finally show ?thesis .
qed

lemma step_length:
  assumes "ledgerOK st" and "succeeds an opts v" and "0 < keepGenerationsOf c"
  shows "length (ledgerOf (fst (backupVolume c an st v dir opts)) v) =
           min (nat (keepGenerationsOf c)) (Suc (length (ledgerOf st v)))"
proof -
  let ?xs = "ledgerOf st v @ [newRecord c an st v dir opts]"
  have "length (anOrderBy an ?xs) = length ?xs"
    using ordered_perm(1)[OF assms(2)] by (rule mset_eq_length)
  moreover have "length (ledgerOf (fst (backupVolume c an st v dir opts)) v)
        = length (take (nat (keepGenerationsOf c)) (anOrderBy an ?xs))"
    using step_ledger[OF assms] by (rule mset_eq_length)
  ultimately show ?thesis by simp
qed

lemma step_other:
  assumes "ledgerOK st" and "succeeds an opts v" and "0 < keepGenerationsOf c" and "u \<noteq> v"
  shows "ledgerOf (fst (backupVolume c an st v dir opts)) u = ledgerOf st u"
proof -
  let ?new = "newRecord c an st v dir opts"
  let ?xs = "ledgerOf st v @ [?new]"
  let ?rs = "anOrderBy an ?xs"
  let ?ds = "drop (nat (keepGenerationsOf c)) ?rs"
  have "set ?rs = set ?xs" using ordered_perm(1)[OF assms(2)] by (rule mset_eq_setD)
  hence sub: "set ?ds \<subseteq> set ?xs" using set_drop_subset by fastforce
  have vs: "\<forall>r \<in> set ?xs. brVolumeName r = v" by (auto simp add: ledgerOf_def newRecord_def)
  have "ledgerOf (fst (backupVolume c an st v dir opts)) u
        = filter (\<lambda>r. brVolumeName r = u)
            (filter (\<lambda>r. r \<notin> set ?ds) (backup_records st @ [?new]))"
    by (simp only: ledgerOf_def[of "fst (backupVolume c an st v dir opts)" u]
        step_records_mem[OF assms(1-3)])
  also have "\<dots> = filter (\<lambda>r. brVolumeName r = u) (backup_records st @ [?new])"
    unfolding filter_filter
  proof (rule filter_cong[OF refl])
    fix x assume "x \<in> set (backup_records st @ [?new])"
    show "(x \<notin> set ?ds \<and> brVolumeName x = u) = (brVolumeName x = u)"
      using sub vs assms(4) by blast
  qed
  also have "\<dots> = ledgerOf st u" using assms(4) by (simp add: ledgerOf_def newRecord_def)
  finally show ?thesis .
qed

lemma step_ledgerOK:
  assumes "ledgerOK st" and "succeeds an opts v" and "0 < keepGenerationsOf c"
  shows "ledgerOK (fst (backupVolume c an st v dir opts))"
proof -
  have "distinct (map brID (backup_records (fst (backupVolume c an st v dir opts))))"
    unfolding step_records_mem[OF assms]
    by (rule distinct_map_filter[OF ledgerOK_snoc[OF assms(1)]])
  moreover have "list_all (\<lambda>r. brID r < next_id (fst (backupVolume c an st v dir opts)))
                   (backup_records (fst (backupVolume c an st v dir opts)))"
    unfolding step_records_mem[OF assms] step_next_id[OF assms(2,3)]
    using assms(1) by (auto simp add: ledgerOK_def list_all_iff newRecord_def less_Suc_eq)
  ultimately show ?thesis by (simp add: ledgerOK_def)
qed


lemma step_below_keep:
  assumes "ledgerOK st" and "succeeds an opts v" and "0 < keepGenerationsOf c"
    and "length (ledgerOf st v) < nat (keepGenerationsOf c)"
  shows "backup_records (fst (backupVolume c an st v dir opts))
           = backup_records st @ [newRecord c an st v dir opts]"
proof -
  let ?xs = "ledgerOf st v @ [newRecord c an st v dir opts]"
  have "length (anOrderBy an ?xs) = length ?xs"
    using ordered_perm(1)[OF assms(2)] by (rule mset_eq_length)
  hence "drop (nat (keepGenerationsOf c)) (anOrderBy an ?xs) = []"
    using assms(4) by simp
  thus ?thesis by (simp add: step_records_mem[OF assms(1-3)])
qed

lemma step_at_keep:
  assumes "ledgerOK st" and "succeeds an opts v" and "0 < keepGenerationsOf c"
    and "length (ledgerOf st v) = nat (keepGenerationsOf c)"
  shows "drop (nat (keepGenerationsOf c))
           (anOrderBy an (ledgerOf st v @ [newRecord c an st v dir opts]))
         = [last (anOrderBy an (ledgerOf st v @ [newRecord c an st v dir opts]))]"
proof -
  let ?xs = "ledgerOf st v @ [newRecord c an st v dir opts]"
  let ?rs = "anOrderBy an ?xs"
  have "length ?rs = length ?xs"
    using ordered_perm(1)[OF assms(2)] by (rule mset_eq_length)
  hence l: "length ?rs = Suc (nat (keepGenerationsOf c))" using assms(4) by simp
  hence ne: "?rs \<noteq> []" by auto
  have "drop (nat (keepGenerationsOf c)) ?rs = drop (length ?rs - 1) ?rs" using l by simp
  also have "\<dots> = [last ?rs]"
    using ne by (metis append_butlast_last_id append_eq_conv_conj length_butlast)
  finally show ?thesis .
qed

lemma backupTimes_snoc:
  "backupTimes c (xs @ [a]) st v dir opts
     = fst (backupVolume c a (backupTimes c xs st v dir opts) v dir opts)"
  by (induction xs arbitrary: st) simp_all

lemma backupTimes_grow:
  assumes "ledgerOK st" and "\<forall>a \<in> set ans. succeeds a opts v" and "0 < keepGenerationsOf c"
    and "length (ledgerOf st v) + length ans \<le> nat (keepGenerationsOf c)"
  shows "ledgerOK (backupTimes c ans st v dir opts)
       \<and> length (ledgerOf (backupTimes c ans st v dir opts) v) = length (ledgerOf st v) + length ans
       \<and> (\<exists>news. backup_records (backupTimes c ans st v dir opts) = backup_records st @ news
                 \<and> list_all (\<lambda>r. brVolumeName r = v) news)"
  using assms
proof (induction ans arbitrary: st)
  case Nil
  thus ?case by simp
next
  case (Cons a ans)
  let ?st = "fst (backupVolume c a st v dir opts)"
  have s: "succeeds a opts v" using Cons.prems(2) by simp
  have lt: "length (ledgerOf st v) < nat (keepGenerationsOf c)" using Cons.prems(4) by simp
  have ok: "ledgerOK ?st" by (rule step_ledgerOK[OF Cons.prems(1) s Cons.prems(3)])
  have len: "length (ledgerOf ?st v) = Suc (length (ledgerOf st v))"
    using step_length[OF Cons.prems(1) s Cons.prems(3), of dir] lt by simp
  have recs: "backup_records ?st = backup_records st @ [newRecord c a st v dir opts]"
    by (rule step_below_keep[OF Cons.prems(1) s Cons.prems(3) lt])
  have rest: "\<forall>a \<in> set ans. succeeds a opts v" using Cons.prems(2) by simp
  have bound: "length (ledgerOf ?st v) + length ans \<le> nat (keepGenerationsOf c)"
    using len Cons.prems(4) by simp
  note ih = Cons.IH[OF ok rest Cons.prems(3) bound]
  from ih obtain news where
    n: "backup_records (backupTimes c ans ?st v dir opts) = backup_records ?st @ news"
    and nv: "list_all (\<lambda>r. brVolumeName r = v) news"
    by blast
  have "backup_records (backupTimes c (a # ans) st v dir opts)
        = backup_records st @ (newRecord c a st v dir opts # news)"
    using n recs by simp
  moreover have "list_all (\<lambda>r. brVolumeName r = v) (newRecord c a st v dir opts # news)"
    using nv by (simp add: newRecord_def)
  ultimately have "\<exists>news. backup_records (backupTimes c (a # ans) st v dir opts)
                            = backup_records st @ news
                          \<and> list_all (\<lambda>r. brVolumeName r = v) news"
    by blast
  thus ?case using ih len by simp
qed

lemma backupTimes_records:
  assumes "ledgerOK st" and "\<forall>a \<in> set ans. succeeds a opts v" and "0 < keepGenerationsOf c"
    and "length (ledgerOf st v) + length ans \<le> nat (keepGenerationsOf c)"
    and "ledgerOf st v = []"
  shows "backup_records (backupTimes c ans st v dir opts)
           = backup_records st @ ledgerOf (backupTimes c ans st v dir opts) v"
proof -
  from backupTimes_grow[OF assms(1-4), of dir] obtain news where
    n: "backup_records (backupTimes c ans st v dir opts) = backup_records st @ news"
    and nv: "list_all (\<lambda>r. brVolumeName r = v) news"
    by blast
  have "filter (\<lambda>r. brVolumeName r = v) news = news"
    using nv by (simp add: list_all_iff filter_id_conv)
  hence "ledgerOf (backupTimes c ans st v dir opts) v = news"
    using assms(5) n by (simp add: ledgerOf_def)
  thus ?thesis using n by simp
qed

lemma sorter_ok: "ordersByCreatedAtDesc (\<lambda>rs. rev (sort_key brCreatedAt rs))"
  unfolding ordersByCreatedAtDesc_def newestFirst_def
proof (intro allI conjI)
  fix rs :: "BackupRecord list"
  show "mset (rev (sort_key brCreatedAt rs)) = mset rs" by simp
  have "sorted (map brCreatedAt (sort_key brCreatedAt rs))" by simp
  hence "sorted_wrt (\<lambda>a b. brCreatedAt a \<le> brCreatedAt b) (sort_key brCreatedAt rs)"
    by (simp only: sorted_map)
  thus "sorted_wrt (\<lambda>a b. brCreatedAt b \<le> brCreatedAt a) (rev (sort_key brCreatedAt rs))"
    by (simp only: sorted_wrt_rev)
qed

text \<open>
  C3. Take a ledger whose keys are unique, a keep count \<open>N > 0\<close> and a backup of a volume
  in which every step succeeds, and let \<open>rs\<close> be the records of that volume, the new one
  included, as the database returns them ordered by creation time, newest first.
  The backup then leaves in the ledger all records but those of \<open>rs\<close> beyond the first
  \<open>N\<close>: the records of the volume that remain are the \<open>N\<close> newest, every record
  removed is at most as new as every record kept, so that the oldest are the ones to go,
  the files of the removed records are removed from disk, and the records of other volumes
  stay. Consequently, when a volume without records is backed up \<open>N + 1\<close> times with
  success, the first \<open>N\<close> backups remove nothing, and the last one removes exactly one
  record \<open>d\<close>, which is at most as new as each of the \<open>N\<close> records that remain, and
  the file of \<open>d\<close> is no longer on disk. The statement fixes which records are removed;
  within one call the loop walks the removed records in the order of the query.
\<close>

theorem retention_keeps_newest_generations:
  assumes ok: "ledgerOK st" and s: "succeeds an opts v" and k: "0 < keepGenerationsOf c"
    and ok0: "ledgerOK st0" and e0: "ledgerOf st0 v = []"
    and len: "length ans = Suc (nat (keepGenerationsOf c))"
    and al: "\<forall>a \<in> set ans. succeeds a opts v"
  shows
    "(let N = nat (keepGenerationsOf c);
          new = newRecord c an st v dir opts;
          rs = anOrderBy an (ledgerOf st v @ [new]);
          st' = fst (backupVolume c an st v dir opts)
      in snd (backupVolume c an st v dir opts) = None
         \<and> mset rs = mset (ledgerOf st v @ [new]) \<and> newestFirst rs
         \<and> backup_records st' = filter (\<lambda>r. r \<notin> set (drop N rs)) (backup_records st @ [new])
         \<and> mset (ledgerOf st' v) = mset (take N rs)
         \<and> (\<forall>d \<in> set (drop N rs). \<forall>k \<in> set (take N rs). brCreatedAt d \<le> brCreatedAt k)
         \<and> files st' = filter (\<lambda>p. p \<notin> brFilePath ` set (drop N rs))
                         (List.insert (archivePath c an opts dir v) (files st))
         \<and> (\<forall>u. u \<noteq> v \<longrightarrow> ledgerOf st' u = ledgerOf st u))
   \<and> (let N = nat (keepGenerationsOf c);
          stN = backupTimes c (butlast ans) st0 v dir opts;
          stF = backupTimes c ans st0 v dir opts;
          newF = newRecord c (last ans) stN v dir opts;
          d = last (anOrderBy (last ans) (ledgerOf stN v @ [newF]))
      in length (ledgerOf stN v) = N
         \<and> backup_records stN = backup_records st0 @ ledgerOf stN v
         \<and> d \<in> set (ledgerOf stN v @ [newF])
         \<and> backup_records stF = filter (\<lambda>r. r \<noteq> d) (backup_records stN @ [newF])
         \<and> length (ledgerOf stF v) = N
         \<and> list_all (\<lambda>k. brCreatedAt d \<le> brCreatedAt k) (ledgerOf stF v)
         \<and> brFilePath d \<notin> set (files stF))"
proof -
  let ?N = "nat (keepGenerationsOf c)"
  let ?new = "newRecord c an st v dir opts"
  let ?rs = "anOrderBy an (ledgerOf st v @ [?new])"
  let ?st' = "fst (backupVolume c an st v dir opts)"
  have A: "snd (backupVolume c an st v dir opts) = None
         \<and> mset ?rs = mset (ledgerOf st v @ [?new]) \<and> newestFirst ?rs
         \<and> backup_records ?st' = filter (\<lambda>r. r \<notin> set (drop ?N ?rs)) (backup_records st @ [?new])
         \<and> mset (ledgerOf ?st' v) = mset (take ?N ?rs)
         \<and> (\<forall>d \<in> set (drop ?N ?rs). \<forall>k \<in> set (take ?N ?rs). brCreatedAt d \<le> brCreatedAt k)
         \<and> files ?st' = filter (\<lambda>p. p \<notin> brFilePath ` set (drop ?N ?rs))
                         (List.insert (archivePath c an opts dir v) (files st))
         \<and> (\<forall>u. u \<noteq> v \<longrightarrow> ledgerOf ?st' u = ledgerOf st u)"
    using step_snd[OF s] ordered_perm[OF s] step_records_mem[OF ok s k] step_ledger[OF ok s k]
      newestFirst_drop_take[OF ordered_perm(2)[OF s]] step_files[OF s k] step_other[OF ok s k]
    by blast
  let ?aL = "last ans"
  let ?stN = "backupTimes c (butlast ans) st0 v dir opts"
  let ?stF = "backupTimes c ans st0 v dir opts"
  let ?newF = "newRecord c ?aL ?stN v dir opts"
  let ?rsF = "anOrderBy ?aL (ledgerOf ?stN v @ [?newF])"
  let ?d = "last ?rsF"
  have ne: "ans \<noteq> []" using len by auto
  have sL: "succeeds ?aL opts v" using al ne by simp
  have alN: "\<forall>a \<in> set (butlast ans). succeeds a opts v" using al by (auto dest: in_set_butlastD)
  have bound: "length (ledgerOf st0 v) + length (butlast ans) \<le> ?N" using e0 len by simp
  note g = backupTimes_grow[OF ok0 alN k bound, of dir]
  have okN: "ledgerOK ?stN" using g by blast
  have lN: "length (ledgerOf ?stN v) = ?N" using g e0 len by simp
  have F: "?stF = fst (backupVolume c ?aL ?stN v dir opts)"
    using backupTimes_snoc[of c "butlast ans" ?aL st0 v dir opts] ne by simp
  have dr: "drop ?N ?rsF = [?d]" by (rule step_at_keep[OF okN sL k lN])
  have permF: "mset ?rsF = mset (ledgerOf ?stN v @ [?newF])" by (rule ordered_perm(1)[OF sL])
  have "?rsF \<noteq> []" using permF by auto
  hence "?d \<in> set ?rsF" by simp
  hence dmem: "?d \<in> set (ledgerOf ?stN v @ [?newF])" using mset_eq_setD[OF permF] by simp
  have recF: "backup_records ?stF = filter (\<lambda>r. r \<noteq> ?d) (backup_records ?stN @ [?newF])"
    unfolding F step_records_mem[OF okN sL k] dr by simp
  have lF: "length (ledgerOf ?stF v) = ?N"
    unfolding F using step_length[OF okN sL k, of dir] lN by simp
  have "set (ledgerOf ?stF v) = set (take ?N ?rsF)"
    unfolding F using step_ledger[OF okN sL k, of dir] by (rule mset_eq_setD)
  hence old: "list_all (\<lambda>k. brCreatedAt ?d \<le> brCreatedAt k) (ledgerOf ?stF v)"
    using newestFirst_drop_take[OF ordered_perm(2)[OF sL], of ?N "ledgerOf ?stN v @ [?newF]"] dr
    by (simp add: list_all_iff)
  have gone: "brFilePath ?d \<notin> set (files ?stF)"
    unfolding F step_files[OF sL k] dr by simp
  have pre: "backup_records ?stN = backup_records st0 @ ledgerOf ?stN v"
    by (rule backupTimes_records[OF ok0 alN k bound e0])
  show ?thesis
    unfolding Let_def using A lN pre dmem recF lF old gone by blast
qed


theorem retention_keeps_newest_generations_witness:
  "map brID (backup_records (fst (backupVolume
      \<lparr>ctxConfig = \<lparr>cfgDefaults = \<lparr>CompressFormat = ''tar.gz'', KeepGenerations = 2,
                                     StopBeforeBackup = False\<rparr>,
                      cfgPaths = \<lparr>Backups = ''/b'', Archives = ''/a''\<rparr>,
                      cfgProjects = Map.empty\<rparr>,
        Compose = None, ProjectName = ''p'', Verbose = False, Quiet = True\<rparr>
      ((\<lambda>(ts, t). \<lparr>anVolumeExists = (\<lambda>v. True), anStopContainers = None, anTimestamp = ts,
                    anBackupVolume = None, anFileSize = 1024, anChecksum = ''9f86d081'',
                    anAddBackupRecord = None, anNow = t, anUpdateLastBackup = None,
                    anGetBackupRecords = None,
                    anOrderBy = (\<lambda>rs. rev (sort_key brCreatedAt rs)),
                    anDeleteBackupRecord = (\<lambda>i. None), anRemove = (\<lambda>p. None)\<rparr>) (''t3'', 300))
      \<lparr>backup_records =
         [\<lparr>brID = 1, brVolumeName = ''p_db'', brServiceName = [], brProjectName = ''p'',
           brFilePath = ''/b/p_db_t1.tar.gz'', brSize = 1024, brCreatedAt = 100, brTag = [],
           brChecksum = ''9f86d081''\<rparr>,
          \<lparr>brID = 2, brVolumeName = ''p_web'', brServiceName = [], brProjectName = ''p'',
           brFilePath = ''/b/p_web_t0.tar.gz'', brSize = 1024, brCreatedAt = 50, brTag = [],
           brChecksum = ''9f86d081''\<rparr>,
          \<lparr>brID = 3, brVolumeName = ''p_db'', brServiceName = [], brProjectName = ''p'',
           brFilePath = ''/b/p_db_t2.tar.gz'', brSize = 1024, brCreatedAt = 200, brTag = [],
           brChecksum = ''9f86d081''\<rparr>],
       next_id = 4, volume_metadata = Map.empty,
       files = [''/b/p_db_t1.tar.gz'', ''/b/p_web_t0.tar.gz'', ''/b/p_db_t2.tar.gz''],
       artifacts = []\<rparr>
      ''p_db'' ''/b''
      \<lparr>boOutput = [], boFormat = [], boNoCompress = False, boTag = [], boStop = False,
       boServices = []\<rparr>))) = [2, 3, 4]
   \<and> files (fst (backupVolume
      \<lparr>ctxConfig = \<lparr>cfgDefaults = \<lparr>CompressFormat = ''tar.gz'', KeepGenerations = 2,
                                     StopBeforeBackup = False\<rparr>,
                      cfgPaths = \<lparr>Backups = ''/b'', Archives = ''/a''\<rparr>,
                      cfgProjects = Map.empty\<rparr>,
        Compose = None, ProjectName = ''p'', Verbose = False, Quiet = True\<rparr>
      ((\<lambda>(ts, t). \<lparr>anVolumeExists = (\<lambda>v. True), anStopContainers = None, anTimestamp = ts,
                    anBackupVolume = None, anFileSize = 1024, anChecksum = ''9f86d081'',
                    anAddBackupRecord = None, anNow = t, anUpdateLastBackup = None,
                    anGetBackupRecords = None,
                    anOrderBy = (\<lambda>rs. rev (sort_key brCreatedAt rs)),
                    anDeleteBackupRecord = (\<lambda>i. None), anRemove = (\<lambda>p. None)\<rparr>) (''t3'', 300))
      \<lparr>backup_records =
         [\<lparr>brID = 1, brVolumeName = ''p_db'', brServiceName = [], brProjectName = ''p'',
           brFilePath = ''/b/p_db_t1.tar.gz'', brSize = 1024, brCreatedAt = 100, brTag = [],
           brChecksum = ''9f86d081''\<rparr>,
          \<lparr>brID = 2, brVolumeName = ''p_web'', brServiceName = [], brProjectName = ''p'',
           brFilePath = ''/b/p_web_t0.tar.gz'', brSize = 1024, brCreatedAt = 50, brTag = [],
           brChecksum = ''9f86d081''\<rparr>,
          \<lparr>brID = 3, brVolumeName = ''p_db'', brServiceName = [], brProjectName = ''p'',
           brFilePath = ''/b/p_db_t2.tar.gz'', brSize = 1024, brCreatedAt = 200, brTag = [],
           brChecksum = ''9f86d081''\<rparr>],
       next_id = 4, volume_metadata = Map.empty,
       files = [''/b/p_db_t1.tar.gz'', ''/b/p_web_t0.tar.gz'', ''/b/p_db_t2.tar.gz''],
       artifacts = []\<rparr>
      ''p_db'' ''/b''
      \<lparr>boOutput = [], boFormat = [], boNoCompress = False, boTag = [], boStop = False,
       boServices = []\<rparr>))
      = [''/b/p_db_t3.tar.gz'', ''/b/p_web_t0.tar.gz'', ''/b/p_db_t2.tar.gz'']
   \<and> map brCreatedAt (ledgerOf (backupTimes
      \<lparr>ctxConfig = \<lparr>cfgDefaults = \<lparr>CompressFormat = ''tar.gz'', KeepGenerations = 2,
                                     StopBeforeBackup = False\<rparr>,
                      cfgPaths = \<lparr>Backups = ''/b'', Archives = ''/a''\<rparr>,
                      cfgProjects = Map.empty\<rparr>,
        Compose = None, ProjectName = ''p'', Verbose = False, Quiet = True\<rparr>
      (map (\<lambda>(ts, t). \<lparr>anVolumeExists = (\<lambda>v. True), anStopContainers = None, anTimestamp = ts,
                    anBackupVolume = None, anFileSize = 1024, anChecksum = ''9f86d081'',
                    anAddBackupRecord = None, anNow = t, anUpdateLastBackup = None,
                    anGetBackupRecords = None,
                    anOrderBy = (\<lambda>rs. rev (sort_key brCreatedAt rs)),
                    anDeleteBackupRecord = (\<lambda>i. None), anRemove = (\<lambda>p. None)\<rparr>)
         [(''t1'', 100), (''t2'', 200), (''t3'', 300)])
      \<lparr>backup_records = [], next_id = 1, volume_metadata = Map.empty, files = [],
       artifacts = []\<rparr>
      ''p_db'' ''/b''
      \<lparr>boOutput = [], boFormat = [], boNoCompress = False, boTag = [], boStop = False,
       boServices = []\<rparr>) ''p_db'') = [200, 300]
   \<and> length (ledgerOf (backupTimes
      \<lparr>ctxConfig = \<lparr>cfgDefaults = \<lparr>CompressFormat = ''tar.gz'', KeepGenerations = 2,
                                     StopBeforeBackup = False\<rparr>,
                      cfgPaths = \<lparr>Backups = ''/b'', Archives = ''/a''\<rparr>,
                      cfgProjects = Map.empty\<rparr>,
        Compose = None, ProjectName = ''p'', Verbose = False, Quiet = True\<rparr>
      (map (\<lambda>(ts, t). \<lparr>anVolumeExists = (\<lambda>v. True), anStopContainers = None, anTimestamp = ts,
                    anBackupVolume = None, anFileSize = 1024, anChecksum = ''9f86d081'',
                    anAddBackupRecord = None, anNow = t, anUpdateLastBackup = None,
                    anGetBackupRecords = None,
                    anOrderBy = (\<lambda>rs. rev (sort_key brCreatedAt rs)),
                    anDeleteBackupRecord = (\<lambda>i. None), anRemove = (\<lambda>p. None)\<rparr>)
         [(''t1'', 100), (''t2'', 200), (''t3'', 300)])
      \<lparr>backup_records = [], next_id = 1, volume_metadata = Map.empty, files = [],
       artifacts = []\<rparr>
      ''p_db'' ''/b''
      \<lparr>boOutput = [], boFormat = [], boNoCompress = False, boTag = [], boStop = False,
       boServices = []\<rparr>) ''p_db'') = 2"
proof -
  let ?c = "\<lparr>ctxConfig = \<lparr>cfgDefaults = \<lparr>CompressFormat = ''tar.gz'', KeepGenerations = 2,
                                     StopBeforeBackup = False\<rparr>,
                      cfgPaths = \<lparr>Backups = ''/b'', Archives = ''/a''\<rparr>,
                      cfgProjects = Map.empty\<rparr>,
        Compose = None, ProjectName = ''p'', Verbose = False, Quiet = True\<rparr>"
  let ?A = "\<lambda>(ts, t). \<lparr>anVolumeExists = (\<lambda>v. True), anStopContainers = None, anTimestamp = ts,
                    anBackupVolume = None, anFileSize = 1024, anChecksum = ''9f86d081'',
                    anAddBackupRecord = None, anNow = t, anUpdateLastBackup = None,
                    anGetBackupRecords = None,
                    anOrderBy = (\<lambda>rs. rev (sort_key brCreatedAt rs)),
                    anDeleteBackupRecord = (\<lambda>i. None), anRemove = (\<lambda>p. None)\<rparr>"
  let ?full = "\<lparr>backup_records =
         [\<lparr>brID = 1, brVolumeName = ''p_db'', brServiceName = [], brProjectName = ''p'',
           brFilePath = ''/b/p_db_t1.tar.gz'', brSize = 1024, brCreatedAt = 100, brTag = [],
           brChecksum = ''9f86d081''\<rparr>,
          \<lparr>brID = 2, brVolumeName = ''p_web'', brServiceName = [], brProjectName = ''p'',
           brFilePath = ''/b/p_web_t0.tar.gz'', brSize = 1024, brCreatedAt = 50, brTag = [],
           brChecksum = ''9f86d081''\<rparr>,
          \<lparr>brID = 3, brVolumeName = ''p_db'', brServiceName = [], brProjectName = ''p'',
           brFilePath = ''/b/p_db_t2.tar.gz'', brSize = 1024, brCreatedAt = 200, brTag = [],
           brChecksum = ''9f86d081''\<rparr>],
       next_id = 4, volume_metadata = Map.empty,
       files = [''/b/p_db_t1.tar.gz'', ''/b/p_web_t0.tar.gz'', ''/b/p_db_t2.tar.gz''],
       artifacts = []\<rparr>"
  let ?empty = "\<lparr>backup_records = [], next_id = 1, volume_metadata = Map.empty, files = [],
       artifacts = []\<rparr>"
  let ?o = "\<lparr>boOutput = [], boFormat = [], boNoCompress = False, boTag = [], boStop = False,
       boServices = []\<rparr>"
  let ?ans = "map ?A [(''t1'', 100), (''t2'', 200), (''t3'', 300)]"
  have e1: "map brID (backup_records (fst (backupVolume ?c (?A (''t3'', 300)) ?full ''p_db'' ''/b'' ?o)))
            = [2, 3, 4]"
    by code_simp
  have e2: "files (fst (backupVolume ?c (?A (''t3'', 300)) ?full ''p_db'' ''/b'' ?o))
            = [''/b/p_db_t3.tar.gz'', ''/b/p_web_t0.tar.gz'', ''/b/p_db_t2.tar.gz'']"
    by code_simp
  have e3: "map brCreatedAt (ledgerOf (backupTimes ?c ?ans ?empty ''p_db'' ''/b'' ?o) ''p_db'')
            = [200, 300]"
    by code_simp
  have k: "keepGenerationsOf ?c = 2" by (simp add: keepGenerationsOf_def)
  have h1: "ledgerOK ?full" by (simp add: ledgerOK_def)
  have sA: "\<And>x. succeeds (?A x) ?o ''p_db''"
    by (simp add: succeeds_def writesArchive_def sorter_ok split_beta)
  have h2: "succeeds (?A (''t3'', 300)) ?o ''p_db''" by (rule sA)
  have h3: "0 < keepGenerationsOf ?c" by (simp add: k)
  have h4: "ledgerOK ?empty" by (simp add: ledgerOK_def)
  have h5: "ledgerOf ?empty ''p_db'' = []" by (simp add: ledgerOf_def)
  have h6: "length ?ans = Suc (nat (keepGenerationsOf ?c))" by (simp add: k)
  have h7: "\<forall>a \<in> set ?ans. succeeds a ?o ''p_db''" using sA by auto
  from retention_keeps_newest_generations
    [OF h1 h2 h3 h4 h5 h6 h7, where dir = "''/b''", unfolded Let_def]
  have "length (ledgerOf (backupTimes ?c ?ans ?empty ''p_db'' ''/b'' ?o) ''p_db'')
          = nat (keepGenerationsOf ?c)"
    by blast
  hence e4: "length (ledgerOf (backupTimes ?c ?ans ?empty ''p_db'' ''/b'' ?o) ''p_db'') = 2"
    by (simp add: k)
  from e1 e2 e3 e4 show ?thesis by blast
qed
end
